theory Spec2Isabelle
  imports Main "HOL-Library.AList"
begin

section \<open>JavaScript values\<close>

text \<open>
  The handlers work on parsed JSON request bodies and on the object literals they build
  from them. A value is one of JavaScript's JSON-shaped values; \<open>JUndef\<close> is
  \<^verbatim>\<open>undefined\<close>, which a missing property reads as and which an object literal such as
  \<^verbatim>\<open>{ name: document.name }\<close> stores as an own property. An object is the list of
  its own properties in insertion order. Numbers are the integers (their printed form is
  the decimal one) and the two infinities, which \<^verbatim>\<open>JSON.parse\<close> yields for a number
  too large to represent (\<^verbatim>\<open>1e999\<close>); strings are lists of code units below 256.
\<close>

datatype json =
    JUndef
  | JNull
  | JBool bool
  | JNum int
  | JPosInf
  | JNegInf
  | JStr string
  | JArr "json list"
  | JObj "(string \<times> json) list"

type_synonym props = "(string \<times> json) list"

text \<open>Property read \<^verbatim>\<open>v.k\<close> (and \<^verbatim>\<open>v?.k\<close>): a missing property is \<^verbatim>\<open>undefined\<close>.
  None of the property names the handlers read is defined on the prototype of a string,
  a number, a boolean or an array, so only objects answer. The handlers read properties
  of \<^verbatim>\<open>null\<close>/\<^verbatim>\<open>undefined\<close> only through \<^verbatim>\<open>?.\<close> or behind a truthiness guard.\<close>

fun field :: "json \<Rightarrow> string \<Rightarrow> json" where
  "field (JObj kvs) k = (case map_of kvs k of Some v \<Rightarrow> v | None \<Rightarrow> JUndef)"
| "field _ k = JUndef"

text \<open>Truthiness, as \<^verbatim>\<open>if (v)\<close>, \<^verbatim>\<open>!v\<close>, \<^verbatim>\<open>||\<close> and \<^verbatim>\<open>&&\<close> test it.\<close>

fun truthy :: "json \<Rightarrow> bool" where
  "truthy JUndef = False"
| "truthy JNull = False"
| "truthy (JBool b) = b"
| "truthy (JNum n) = (n \<noteq> 0)"
| "truthy JPosInf = True"
| "truthy JNegInf = True"
| "truthy (JStr s) = (s \<noteq> [])"
| "truthy (JArr _) = True"
| "truthy (JObj _) = True"

definition js_or :: "json \<Rightarrow> json \<Rightarrow> json" where
  "js_or a b = (if truthy a then a else b)"

definition js_and :: "json \<Rightarrow> json \<Rightarrow> json" where
  "js_and a b = (if truthy a then b else a)"

text \<open>\<^verbatim>\<open>Array.isArray(v)\<close> and \<^verbatim>\<open>typeof v\<close>.\<close>

fun isArray :: "json \<Rightarrow> bool" where
  "isArray (JArr _) = True"
| "isArray _ = False"

fun typeof :: "json \<Rightarrow> string" where
  "typeof JUndef = ''undefined''"
| "typeof JNull = ''object''"
| "typeof (JBool _) = ''boolean''"
| "typeof (JNum _) = ''number''"
| "typeof JPosInf = ''number''"
| "typeof JNegInf = ''number''"
| "typeof (JStr _) = ''string''"
| "typeof (JArr _) = ''object''"
| "typeof (JObj _) = ''object''"

text \<open>Strict equality \<^verbatim>\<open>a === b\<close> between a value read from one parsed document and a
  value read from another: primitives compare by value, objects and arrays by identity,
  and two parsed documents share no object.\<close>

fun strict_eq :: "json \<Rightarrow> json \<Rightarrow> bool" where
  "strict_eq (JArr _) _ = False"
| "strict_eq (JObj _) _ = False"
| "strict_eq a b = (a = b)"

subsection \<open>Strings\<close>

definition digit_char :: "nat \<Rightarrow> char" where
  "digit_char d = ''0123456789'' ! d"

function digits :: "nat \<Rightarrow> string" where
  "digits n = (if n < 10 then [digit_char n] else digits (n div 10) @ [digit_char (n mod 10)])"
  by pat_completeness auto
termination
  by (relation "measure id") auto

declare digits.simps [simp del]

definition show_int :: "int \<Rightarrow> string" where
  "show_int i = (if i < 0 then CHR ''-'' # digits (nat (- i)) else digits (nat i))"

text \<open>\<^verbatim>\<open>String(v)\<close>. An array prints its elements joined by commas, \<^verbatim>\<open>null\<close> and
  \<^verbatim>\<open>undefined\<close> elements as the empty string. A plain object prints as
  \<^verbatim>\<open>[object Object]\<close>; one with an own property \<^verbatim>\<open>toString\<close> (never a function in
  parsed JSON) cannot be converted and the call throws a TypeError, which is \<open>None\<close>.\<close>

fun js_String :: "json \<Rightarrow> string option"
  and js_join :: "json list \<Rightarrow> string option" where
  "js_String JUndef = Some ''undefined''"
| "js_String JNull = Some ''null''"
| "js_String (JBool b) = Some (if b then ''true'' else ''false'')"
| "js_String (JNum n) = Some (show_int n)"
| "js_String JPosInf = Some ''Infinity''"
| "js_String JNegInf = Some ''-Infinity''"
| "js_String (JStr s) = Some s"
| "js_String (JArr xs) = js_join xs"
| "js_String (JObj kvs) =
     (if map_of kvs ''toString'' = None then Some ''[object Object]'' else None)"
| "js_join [] = Some []"
| "js_join (x # xs) =
     (case (if x = JUndef \<or> x = JNull then Some [] else js_String x) of
        None \<Rightarrow> None
      | Some s \<Rightarrow>
          (if xs = [] then Some s
           else (case js_join xs of None \<Rightarrow> None | Some r \<Rightarrow> Some (s @ '','' @ r))))"

text \<open>\<^verbatim>\<open>s.includes(t)\<close>: \<open>t\<close> occurs in \<open>s\<close> as a contiguous substring.\<close>

fun str_includes :: "string \<Rightarrow> string \<Rightarrow> bool" where
  "str_includes [] t = (t = [])"
| "str_includes (c # cs) t = (take (length t) (c # cs) = t \<or> str_includes cs t)"

text \<open>\<^verbatim>\<open>s.trim()\<close>: the white space and line terminators among the code units below 256
  are TAB, LF, VT, FF, CR, SP and NBSP.\<close>

definition js_space :: "char \<Rightarrow> bool" where
  "js_space c = (of_char c \<in> {9, 10, 11, 12, 13, 32, 160 :: nat})"

definition trim :: "string \<Rightarrow> string" where
  "trim s = rev (dropWhile js_space (rev (dropWhile js_space s)))"

text \<open>\<^verbatim>\<open>s.toLowerCase()\<close> on code units below 256: A-Z and the Latin-1 capitals
  (all of 192..222 but the multiplication sign 215) move up by 32.\<close>

definition lower_char :: "char \<Rightarrow> char" where
  "lower_char c =
     (let n = (of_char c :: nat)
      in if (65 \<le> n \<and> n \<le> 90) \<or> (192 \<le> n \<and> n \<le> 222 \<and> n \<noteq> 215) then char_of (n + 32) else c)"

definition toLowerCase :: "string \<Rightarrow> string" where
  "toLowerCase s = map lower_char s"

subsection \<open>Objects\<close>

text \<open>Assignment \<^verbatim>\<open>o.k = v\<close> on an object: an existing own property keeps its place,
  a new one goes last.\<close>

definition set_prop :: "props \<Rightarrow> string \<Rightarrow> json \<Rightarrow> props" where
  "set_prop ps k v = AList.update k v ps"

text \<open>The own enumerable properties an object spread \<^verbatim>\<open>{...v}\<close> copies: those of an
  object, the indexed elements of an array, the indexed characters of a string, none of
  any other value.\<close>

fun own_props :: "json \<Rightarrow> props" where
  "own_props (JObj kvs) = kvs"
| "own_props (JArr xs) = zip (map digits [0..<length xs]) xs"
| "own_props (JStr s) = zip (map digits [0..<length s]) (map (\<lambda>c. JStr [c]) s)"
| "own_props _ = []"

text \<open>An object literal \<^verbatim>\<open>{ k1: v1, ..., ...a, ...b }\<close>: the properties are defined from
  left to right, a later one overwriting an earlier one of the same name in place.\<close>

definition obj_literal :: "props \<Rightarrow> props" where
  "obj_literal ps = foldl (\<lambda>acc kv. AList.update (fst kv) (snd kv) acc) [] ps"

text \<open>\<^verbatim>\<open>xs.findIndex(p)\<close>: the first index whose element satisfies \<open>p\<close>; \<open>None\<close> is -1.\<close>

fun findIndex :: "('a \<Rightarrow> bool) \<Rightarrow> 'a list \<Rightarrow> nat option" where
  "findIndex p [] = None"
| "findIndex p (x # xs) =
     (if p x then Some 0 else (case findIndex p xs of None \<Rightarrow> None | Some i \<Rightarrow> Some (Suc i)))"

subsection \<open>The JSON form of a value\<close>

text \<open>What \<^verbatim>\<open>JSON.parse(JSON.stringify(v))\<close> gives, which is what comes back of a value
  sent to the store: a property that holds \<^verbatim>\<open>undefined\<close> is left out of its object, an
  element that is \<^verbatim>\<open>undefined\<close> becomes \<^verbatim>\<open>null\<close> in its array, and a number that is
  not finite becomes \<^verbatim>\<open>null\<close>.\<close>

fun json_form :: "json \<Rightarrow> json"
  and json_form_elems :: "json list \<Rightarrow> json list"
  and json_form_props :: "props \<Rightarrow> props" where
  "json_form JUndef = JUndef"
| "json_form JNull = JNull"
| "json_form (JBool b) = JBool b"
| "json_form (JNum n) = JNum n"
| "json_form JPosInf = JNull"
| "json_form JNegInf = JNull"
| "json_form (JStr s) = JStr s"
| "json_form (JArr xs) = JArr (json_form_elems xs)"
| "json_form (JObj kvs) = JObj (json_form_props kvs)"
| "json_form_elems [] = []"
| "json_form_elems (x # xs) = (if x = JUndef then JNull else json_form x) # json_form_elems xs"
| "json_form_props [] = []"
| "json_form_props (kv # kvs) =
     (if snd kv = JUndef then json_form_props kvs
      else (fst kv, json_form (snd kv)) # json_form_props kvs)"

section \<open>Requests, responses and the document store\<close>

text \<open>A request as the handlers see it: the parsed JSON body, the headers and the URL
  query parameters (both string-valued), and the two readings of the clock
  (\<^verbatim>\<open>Date.now()\<close>) the organization endpoint may take while it serves the request:
  one when it builds a member record, one when it builds a team record.\<close>

record request =
  body :: json
  headers :: "(string \<times> string) list"
  url_query :: "(string \<times> string) list"
  now_member :: nat
  now_team :: nat

definition header :: "request \<Rightarrow> string \<Rightarrow> json" where
  "header req k = (case map_of (headers req) k of Some s \<Rightarrow> JStr s | None \<Rightarrow> JUndef)"

text \<open>\<^verbatim>\<open>res.status(c).json(b)\<close>; \<^verbatim>\<open>res.json(b)\<close> answers 200.\<close>

datatype response = Response (status: nat) (payload: json)

text \<open>The store holds one JSON object per index and identifier. \<^verbatim>\<open>esClient.index\<close>
  replaces the document under its identifier, \<^verbatim>\<open>esClient.delete\<close> removes it,
  \<^verbatim>\<open>esClient.get\<close> reads it (\<open>None\<close> when there is none, which the handler's
  \<^verbatim>\<open>.catch(() => null)\<close> turns into \<^verbatim>\<open>null\<close>). The store is taken to answer every
  write, and the refresh after a write changes no document. An identifier is the value
  the handler passes. The state records the document the handler passed; the store keeps
  it in its JSON form, and that form is what a read returns.\<close>

type_synonym store = "string \<times> json \<Rightarrow> props option"

definition empty_store :: store where
  "empty_store = (\<lambda>_. None)"

definition es_index :: "string \<Rightarrow> json \<Rightarrow> props \<Rightarrow> store \<Rightarrow> store" where
  "es_index idx docid d st = st((idx, docid) \<mapsto> d)"

definition es_delete :: "string \<Rightarrow> json \<Rightarrow> store \<Rightarrow> store" where
  "es_delete idx docid st = st((idx, docid) := None)"

definition es_get :: "string \<Rightarrow> json \<Rightarrow> store \<Rightarrow> props option" where
  "es_get idx docid st = map_option json_form_props (st (idx, docid))"

subsection \<open>Event and document of an indexing request\<close>

text \<open>
  \<^verbatim>\<open>const headerEvent = req.headers['x-appwrite-event'] || req.headers['x-appwrite-webhook-event'];\<close>
  \<^verbatim>\<open>const bodyEvent = req.body?.event || req.body?.events || req.body?.type;\<close>
  \<^verbatim>\<open>const event = (Array.isArray(bodyEvent) ? bodyEvent[0] : bodyEvent) || headerEvent || '';\<close>
\<close>

definition event_of :: "request \<Rightarrow> json" where
  "event_of req =
     (let headerEvent = js_or (header req ''x-appwrite-event'') (header req ''x-appwrite-webhook-event'');
          bodyEvent = js_or (js_or (field (body req) ''event'') (field (body req) ''events''))
                        (field (body req) ''type'');
          first = (case bodyEvent of
                     JArr xs \<Rightarrow> (case xs of [] \<Rightarrow> JUndef | x # _ \<Rightarrow> x)
                   | _ \<Rightarrow> bodyEvent)
      in js_or (js_or first headerEvent) (JStr []))"

text \<open>
  \<^verbatim>\<open>const document = req.body?.document || req.body?.payload?.document || req.body?.payload\<close>
  \<^verbatim>\<open>  || (req.body?.$id ? req.body : undefined);\<close>
\<close>

definition document_of :: "request \<Rightarrow> json" where
  "document_of req =
     js_or (js_or (js_or (field (body req) ''document'')
                         (field (field (body req) ''payload'') ''document''))
                  (field (body req) ''payload''))
           (if truthy (field (body req) ''$id'') then body req else JUndef)"

text \<open>\<^verbatim>\<open>event && String(event).includes('delete')\<close>; \<open>None\<close> when \<^verbatim>\<open>String\<close> throws.\<close>

definition is_delete_event :: "json \<Rightarrow> bool option" where
  "is_delete_event event =
     (if truthy event
      then (case js_String event of None \<Rightarrow> None | Some s \<Rightarrow> Some (str_includes s ''delete''))
      else Some False)"

text \<open>The answer of the \<^verbatim>\<open>catch\<close> block of both indexing handlers.\<close>

definition index_failed :: response where
  "index_failed = Response 500 (JObj [(''ok'', JBool False), (''error'', JStr ''index_failed'')])"

section \<open>The task endpoint\<close>

definition task_body :: "json \<Rightarrow> props" where
  "task_body document =
     [(''docType'', JStr ''tasks''),
      (''title'', field document ''title''),
      (''description'', field document ''description''),
      (''category'', field document ''category''),
      (''status'', field document ''status''),
      (''priority'', field document ''priority''),
      (''dueDate'', field document ''dueDate''),
      (''userEmail'', field document ''userEmail''),
      (''$createdAt'', field document ''$createdAt''),
      (''$updatedAt'', field document ''$updatedAt''),
      (''assignee'', field document ''assignee''),
      (''invites'', field document ''invites'')]"

definition task_handler :: "request \<Rightarrow> store \<Rightarrow> response \<times> store" where
  "task_handler req st =
     (let event = event_of req; document = document_of req in
      if \<not> truthy (field document ''$id'')
      then (Response 400 (JObj [(''ok'', JBool False), (''error'', JStr ''missing_document'')]), st)
      else
        let docid = field document ''$id'' in
        case is_delete_event event of
          None \<Rightarrow> (index_failed, st)
        | Some del \<Rightarrow>
            if del
            then (Response 200 (JObj [(''ok'', JBool True), (''action'', JStr ''deleted''), (''id'', docid)]),
                  es_delete ''tasks'' docid st)
            else (Response 200 (JObj [(''ok'', JBool True), (''action'', JStr ''upserted''), (''id'', docid),
                                      (''index'', JStr ''tasks'')]),
                  es_index ''tasks'' docid (task_body document) st))"

section \<open>The organization endpoint\<close>

definition organization_body :: "json \<Rightarrow> props" where
  "organization_body document =
     [(''docType'', JStr ''organizations''),
      (''name'', field document ''name''),
      (''slug'', field document ''slug''),
      (''description'', field document ''description''),
      (''members'', js_or (field document ''members'') (JArr [])),
      (''teams'', js_or (field document ''teams'') (JArr [])),
      (''createdAt'', js_or (field document ''createdAt'') (field document ''$createdAt''))]"

text \<open>The aggregate a child is merged into when the store has none under the parent's
  identifier.\<close>

definition empty_org :: props where
  "empty_org =
     [(''docType'', JStr ''organizations''), (''members'', JArr []), (''teams'', JArr []),
      (''name'', JStr []), (''slug'', JStr []), (''description'', JStr [])]"

definition member_of :: "nat \<Rightarrow> json \<Rightarrow> json" where
  "member_of t document =
     JObj [(''$id'', js_or (field document ''$id'') (JStr (''mem_'' @ digits t))),
           (''name'', field document ''name''),
           (''email'', field document ''email''),
           (''role'', field document ''role'')]"

definition team_of :: "nat \<Rightarrow> json \<Rightarrow> json" where
  "team_of t document =
     JObj [(''$id'', js_or (field document ''$id'') (JStr (''team_'' @ digits t))),
           (''name'', field document ''name''),
           (''members'', js_or (field document ''members'') (JArr []))]"

text \<open>The test of \<^verbatim>\<open>findIndex\<close>: \<^verbatim>\<open>(m) => m && m.$id === member.$id\<close>.\<close>

definition same_id :: "json \<Rightarrow> json \<Rightarrow> bool" where
  "same_id e m = (truthy m \<and> strict_eq (field m ''$id'') (field e ''$id''))"

text \<open>
  \<^verbatim>\<open>const existsIdx = xs.findIndex(...);\<close>
  \<^verbatim>\<open>if (existsIdx >= 0) xs[existsIdx] = { ...xs[existsIdx], ...e }; else xs.push(e);\<close>
\<close>

definition upsert_entry :: "json \<Rightarrow> json list \<Rightarrow> json list" where
  "upsert_entry e xs =
     (case findIndex (same_id e) xs of
        Some i \<Rightarrow> xs[i := JObj (obj_literal (own_props (xs ! i) @ own_props e))]
      | None \<Rightarrow> xs @ [e])"

text \<open>\<^verbatim>\<open>orgDoc.k = orgDoc.k || []\<close> followed by the upsert into that array. When the
  property holds a truthy value that is no array, \<^verbatim>\<open>findIndex\<close> is no function and the
  call throws (\<open>None\<close>).\<close>

definition merge_collection :: "string \<Rightarrow> json \<Rightarrow> props \<Rightarrow> props option" where
  "merge_collection k e orgDoc =
     (case js_or (field (JObj orgDoc) k) (JArr []) of
        JArr xs \<Rightarrow> Some (set_prop orgDoc k (JArr (upsert_entry e xs)))
      | _ \<Rightarrow> None)"

definition is_member_payload :: "json \<Rightarrow> bool" where
  "is_member_payload document = truthy (js_or (field document ''email'') (field document ''role''))"

definition is_team_payload :: "json \<Rightarrow> bool" where
  "is_team_payload document = (truthy (field document ''name'') \<and> isArray (field document ''members''))"

definition merge_child :: "nat \<Rightarrow> nat \<Rightarrow> json \<Rightarrow> props \<Rightarrow> props option" where
  "merge_child t t' document orgDoc =
     (case (if is_member_payload document
            then merge_collection ''members'' (member_of t document) orgDoc
            else Some orgDoc) of
        None \<Rightarrow> None
      | Some o1 \<Rightarrow>
          (case (if is_team_payload document
                 then merge_collection ''teams'' (team_of t' document) o1
                 else Some o1) of
             None \<Rightarrow> None
           | Some o2 \<Rightarrow> Some (set_prop o2 ''docType'' (JStr ''organizations''))))"

text \<open>\<^verbatim>\<open>document.$id || document.organizationId || document.orgId\<close>\<close>

definition org_id_of :: "json \<Rightarrow> json" where
  "org_id_of document =
     js_or (js_or (field document ''$id'') (field document ''organizationId'')) (field document ''orgId'')"

text \<open>\<^verbatim>\<open>document.$id && (document.members || document.teams || document.name)\<close>\<close>

definition is_full_organization :: "json \<Rightarrow> bool" where
  "is_full_organization document =
     truthy (js_and (field document ''$id'')
               (js_or (js_or (field document ''members'') (field document ''teams'')) (field document ''name'')))"

text \<open>\<^verbatim>\<open>document.organizationId || document.orgId || (document.org && document.org.$id) || document.parentOrgId\<close>\<close>

definition parent_org_id :: "json \<Rightarrow> json" where
  "parent_org_id document =
     js_or (js_or (js_or (field document ''organizationId'') (field document ''orgId''))
                  (js_and (field document ''org'') (field (field document ''org'') ''$id'')))
           (field document ''parentOrgId'')"

text \<open>\<^verbatim>\<open>existing && existing._source ? existing._source : { docType: 'organizations', ... }\<close>\<close>

definition fetch_org :: "json \<Rightarrow> store \<Rightarrow> props" where
  "fetch_org parentOrgId st =
     (case es_get ''organizations'' parentOrgId st of Some d \<Rightarrow> d | None \<Rightarrow> empty_org)"

definition organization_handler :: "request \<Rightarrow> store \<Rightarrow> response \<times> store" where
  "organization_handler req st =
     (let event = event_of req; document = document_of req in
      if \<not> truthy document
      then (Response 400 (JObj [(''ok'', JBool False), (''error'', JStr ''missing_document'')]), st)
      else
        let docid = org_id_of document in
        case is_delete_event event of
          None \<Rightarrow> (index_failed, st)
        | Some del \<Rightarrow>
            if del \<and> truthy docid
            then (Response 200 (JObj [(''ok'', JBool True), (''action'', JStr ''deleted''), (''id'', docid)]),
                  es_delete ''organizations'' docid st)
            else if is_full_organization document
            then (Response 200 (JObj [(''ok'', JBool True), (''action'', JStr ''upserted''),
                                      (''id'', field document ''$id''), (''index'', JStr ''organizations'')]),
                  es_index ''organizations'' (field document ''$id'') (organization_body document) st)
            else
              let parentOrgId = parent_org_id document in
              if \<not> truthy parentOrgId
              then (Response 400 (JObj [(''ok'', JBool False), (''error'', JStr ''missing_parent_org_id'')]), st)
              else
                (case merge_child (now_member req) (now_team req) document (fetch_org parentOrgId st) of
                   None \<Rightarrow> (index_failed, st)
                 | Some orgDoc \<Rightarrow>
                     (Response 200 (JObj [(''ok'', JBool True), (''action'', JStr ''merged_into_organization''),
                                          (''id'', parentOrgId)]),
                      es_index ''organizations'' parentOrgId orgDoc st)))"

section \<open>The mapping summary\<close>

definition INDICES :: "string list" where
  "INDICES = [''tasks'', ''organizations'']"

definition fieldsToCheck :: "string list" where
  "fieldsToCheck = [''userEmail'', ''email'', ''members.email'', ''name'', ''title'', ''description'']"

text \<open>\<^verbatim>\<open>path.split('.')\<close>\<close>

fun split_on :: "char \<Rightarrow> string \<Rightarrow> string list" where
  "split_on c [] = [[]]"
| "split_on c (x # xs) =
     (if x = c then [] # split_on c xs
      else (case split_on c xs of p # ps \<Rightarrow> (x # p) # ps | [] \<Rightarrow> [[x]]))"

text \<open>The loop of \<^verbatim>\<open>hasKeywordSubfield\<close> over the parts of the path; \<open>None\<close> is its
  \<^verbatim>\<open>return false\<close>.\<close>

fun walk_mapping :: "json \<Rightarrow> string list \<Rightarrow> json option" where
  "walk_mapping cur [] = Some cur"
| "walk_mapping cur (part # parts) =
     (if \<not> truthy cur then None
      else let next = field cur part in
        if \<not> truthy next then None
        else if truthy (field next ''properties'') then walk_mapping (field next ''properties'') parts
        else walk_mapping next parts)"

definition hasKeywordSubfield :: "json \<Rightarrow> string \<Rightarrow> bool" where
  "hasKeywordSubfield mapping path =
     (if \<not> truthy mapping then False
      else
        let cur0 = (if truthy (js_and (field mapping ''mappings'') (field (field mapping ''mappings'') ''properties''))
                    then field (field mapping ''mappings'') ''properties'' else mapping)
        in case walk_mapping cur0 (split_on CHR ''.'' path) of
             None \<Rightarrow> False
           | Some cur \<Rightarrow>
               if \<not> truthy cur then False
               else if strict_eq (field cur ''type'') (JStr ''keyword'') then True
               else if truthy (js_and (field cur ''fields'') (field (field cur ''fields'') ''keyword'')) then True
               else False)"

text \<open>The summary \<^verbatim>\<open>loadMappingSummary\<close> computes from the answer \<open>raw\<close> of
  \<^verbatim>\<open>getMapping\<close> (\<^verbatim>\<open>{}\<close> when that call fails): for each index, for each field, whether
  it has a keyword sub-field. Reading \<^verbatim>\<open>raw[idx]\<close> of a \<^verbatim>\<open>null\<close> or \<^verbatim>\<open>undefined\<close>
  answer throws; the function catches it and leaves the cache as it is.\<close>

definition mapping_summary :: "json \<Rightarrow> props" where
  "mapping_summary raw =
     map (\<lambda>idx. (idx, JObj (map (\<lambda>f. (f, JBool (hasKeywordSubfield
                                                   (js_or (js_or (field raw idx) (field raw idx)) raw) f)))
                               fieldsToCheck)))
         INDICES"

definition loadMappingSummary :: "json \<Rightarrow> props \<Rightarrow> props" where
  "loadMappingSummary raw mappingSummaryCache =
     (if raw = JUndef \<or> raw = JNull then mappingSummaryCache else mapping_summary raw)"

section \<open>The search endpoint\<close>

text \<open>The query clauses the handler builds: \<^verbatim>\<open>{ term: { f: v } }\<close>, \<^verbatim>\<open>{ match: { f: v } }\<close>,
  \<^verbatim>\<open>{ multi_match: { query, type, fields, operator } }\<close> and
  \<^verbatim>\<open>{ bool: { must, filter, should, minimum_should_match } }\<close>.\<close>

datatype clause =
    TermQ string json
  | MatchQ string json
  | MultiMatchQ string string "string list" string
  | BoolQ "clause list" "clause list" "clause list" "nat option"

text \<open>What \<^verbatim>\<open>esClient.search\<close> is called with: the indices and the query of the body.
  The \<^verbatim>\<open>size\<close> and \<^verbatim>\<open>_source\<close> entries of the body bound and project the hits; they
  do not decide which documents match and are left out.\<close>

record es_request =
  es_indices :: "string list"
  es_query :: clause

text \<open>The store as the search handler uses it: the answer of \<^verbatim>\<open>getMapping\<close> and the
  answer of \<^verbatim>\<open>search\<close> to a request (\<open>None\<close> when the call rejects).\<close>

record es_client =
  getMapping :: json
  search :: "es_request \<Rightarrow> json option"

datatype es_call = GetMapping "string list" | Search es_request

definition fieldsToSearch :: "string list" where
  "fieldsToSearch =
     [''title^3'', ''description^2'', ''category'', ''assignee'', ''invites'', ''name^3'', ''slug'',
      ''members.name'', ''members.email'', ''teams.name'', ''email'']"

text \<open>\<^verbatim>\<open>const hasKeyword = m[idx] && m[idx][fieldBase];\<close>\<close>

definition hasKeyword :: "json \<Rightarrow> string \<Rightarrow> string \<Rightarrow> bool" where
  "hasKeyword m idx fieldBase = truthy (js_and (field m idx) (field (field m idx) fieldBase))"

definition termOrMatch :: "json \<Rightarrow> json \<Rightarrow> string \<Rightarrow> string \<Rightarrow> string \<Rightarrow> clause" where
  "termOrMatch m userEmail fieldBase idx fallbackField =
     (if hasKeyword m idx fieldBase
      then TermQ ((if fallbackField \<noteq> [] then fallbackField else fieldBase) @ ''.keyword'') userEmail
      else MatchQ (if fallbackField \<noteq> [] then fallbackField else fieldBase) userEmail)"

definition userFilters :: "json \<Rightarrow> json \<Rightarrow> clause" where
  "userFilters m userEmail =
     BoolQ [] []
       [BoolQ [TermQ ''_index'' (JStr ''tasks''),
               termOrMatch m userEmail ''userEmail'' ''tasks'' ''userEmail''] [] [] None,
        BoolQ [TermQ ''_index'' (JStr ''organizations''),
               termOrMatch m userEmail ''members.email'' ''organizations'' ''members.email''] [] [] None]
       (Some 1)"

definition text_clause :: "string \<Rightarrow> clause" where
  "text_clause q = MultiMatchQ q ''bool_prefix'' fieldsToSearch ''or''"

definition esQuery :: "json \<Rightarrow> string \<Rightarrow> json \<Rightarrow> es_request" where
  "esQuery m q userEmail =
     \<lparr>es_indices = INDICES, es_query = BoolQ [text_clause q] [userFilters m userEmail] [] None\<rparr>"

text \<open>The debug run: \<^verbatim>\<open>unfilteredQuery.body.query.bool.filter = []\<close>.\<close>

definition unfilteredQuery :: "string \<Rightarrow> es_request" where
  "unfilteredQuery q = \<lparr>es_indices = INDICES, es_query = BoolQ [text_clause q] [] [] None\<rparr>"

text \<open>\<^verbatim>\<open>result.hits?.hits || []\<close>; reading \<^verbatim>\<open>hits\<close> of a \<^verbatim>\<open>null\<close> answer throws.\<close>

definition hits_of :: "json \<Rightarrow> json option" where
  "hits_of result =
     (if result = JUndef \<or> result = JNull then None
      else Some (js_or (field (field result ''hits'') ''hits'') (JArr [])))"

text \<open>\<^verbatim>\<open>(h) => ({ $id: h._id, _index: h._index, _score: h._score, ...(h._source || {}) })\<close>\<close>

definition item_of :: "json \<Rightarrow> json option" where
  "item_of h =
     (if h = JUndef \<or> h = JNull then None
      else Some (JObj (obj_literal
             ([(''$id'', field h ''_id''), (''_index'', field h ''_index''), (''_score'', field h ''_score'')]
              @ own_props (js_or (field h ''_source'') (JObj []))))))"

text \<open>\<^verbatim>\<open>hits.map(...)\<close>: only an array has \<^verbatim>\<open>map\<close>.\<close>

definition items_of :: "json \<Rightarrow> json list option" where
  "items_of hits = (case hits of JArr hs \<Rightarrow> those (map item_of hs) | _ \<Rightarrow> None)"

definition search_failed :: response where
  "search_failed = Response 500 (JObj [(''results'', JArr []), (''error'', JStr ''search_failed'')])"

text \<open>\<^verbatim>\<open>req.body?.debug === true || req.query?.debug === 'true'\<close>\<close>

definition debug_requested :: "request \<Rightarrow> bool" where
  "debug_requested req =
     (field (body req) ''debug'' = JBool True \<or> map_of (url_query req) ''debug'' = Some ''true'')"

text \<open>The \<^verbatim>\<open>unfiltered\<close> object of the debug run, from the answer \<open>r2\<close> to the unfiltered
  query.\<close>

definition unfiltered_of :: "json \<Rightarrow> json option" where
  "unfiltered_of r2 =
     (case hits_of r2 of
        Some (JArr hits2) \<Rightarrow>
          (case those (map item_of (take 5 hits2)) of
             None \<Rightarrow> None
           | Some sample \<Rightarrow>
               Some (JObj [(''took'', field r2 ''took''),
                           (''total'', js_or (field (field r2 ''hits'') ''total'') JNull),
                           (''count'', JNum (int (length hits2))),
                           (''sample'', JArr sample)]))
      | _ \<Rightarrow> None)"

text \<open>The lazy load: \<^verbatim>\<open>Object.keys(mappingSummaryCache).length === 0\<close> (the cache is
  always an object, never falsy).\<close>

definition current_summary :: "es_client \<Rightarrow> props \<Rightarrow> props" where
  "current_summary es mappingSummaryCache =
     (if mappingSummaryCache = [] then loadMappingSummary (getMapping es) mappingSummaryCache
      else mappingSummaryCache)"

definition load_calls :: "props \<Rightarrow> es_call list" where
  "load_calls mappingSummaryCache = (if mappingSummaryCache = [] then [GetMapping INDICES] else [])"

text \<open>The part of the handler after the two guards: \<open>q\<close> is \<^verbatim>\<open>String(query)\<close>. It
  answers with the response and the calls it made to the store, in order.\<close>

definition run_search :: "es_client \<Rightarrow> props \<Rightarrow> request \<Rightarrow> string \<Rightarrow> json \<Rightarrow> response \<times> es_call list" where
  "run_search es m req q userEmail =
     (let filtered = esQuery (JObj m) q userEmail in
      case search es filtered of
        None \<Rightarrow> (search_failed, [Search filtered])
      | Some result \<Rightarrow>
          (case hits_of result of
             None \<Rightarrow> (search_failed, [Search filtered])
           | Some hits \<Rightarrow>
               if debug_requested req
               then
                 (case search es (unfilteredQuery q) of
                    None \<Rightarrow> (search_failed, [Search filtered, Search (unfilteredQuery q)])
                  | Some r2 \<Rightarrow>
                      (case unfiltered_of r2 of
                         None \<Rightarrow> (search_failed, [Search filtered, Search (unfilteredQuery q)])
                       | Some unfiltered \<Rightarrow>
                           (case items_of hits of
                              None \<Rightarrow> (search_failed, [Search filtered, Search (unfilteredQuery q)])
                            | Some items \<Rightarrow>
                                (Response 200
                                   (JObj [(''results'', JArr items),
                                          (''debug'',
                                           JObj [(''filtered'',
                                                  JObj [(''took'', field result ''took''),
                                                        (''total'', js_or (field (field result ''hits'') ''total'') JNull),
                                                        (''count'', JNum (int (length items)))]),
                                                 (''unfiltered'', unfiltered)])]),
                                 [Search filtered, Search (unfilteredQuery q)]))))
               else
                 (case items_of hits of
                    None \<Rightarrow> (search_failed, [Search filtered])
                  | Some items \<Rightarrow> (Response 200 (JObj [(''results'', JArr items)]), [Search filtered]))))"

text \<open>\<^verbatim>\<open>const size = Math.min(Number(limit) || 10, 50)\<close>: the number itself bounds the
  hits and is left out, but \<^verbatim>\<open>Number(limit)\<close> throws a TypeError on the values
  \<^verbatim>\<open>String(limit)\<close> throws on (an object with an own \<^verbatim>\<open>toString\<close>, or an array that
  holds one), and then the handler answers from its \<^verbatim>\<open>catch\<close> block.\<close>

definition size_throws :: "json \<Rightarrow> bool" where
  "size_throws limit = (js_String limit = None)"

text \<open>The handler: the response, the cache it leaves and the calls it made to the store.\<close>

definition search_handler :: "es_client \<Rightarrow> props \<Rightarrow> request \<Rightarrow> response \<times> props \<times> es_call list" where
  "search_handler es mappingSummaryCache req =
     (let query = field (body req) ''query''; userEmail = field (body req) ''userEmail'' in
      if \<not> truthy userEmail
      then (Response 400 (JObj [(''results'', JArr []), (''error'', JStr ''userEmail required'')]),
            mappingSummaryCache, [])
      else if \<not> truthy query
      then (Response 200 (JObj [(''results'', JArr [])]), mappingSummaryCache, [])
      else
        (case js_String query of
           None \<Rightarrow> (search_failed, mappingSummaryCache, [])
         | Some q \<Rightarrow>
             if length (trim q) < 2
             then (Response 200 (JObj [(''results'', JArr [])]), mappingSummaryCache, [])
             else if size_throws (field (body req) ''limit'')
             then (search_failed, mappingSummaryCache, [])
             else
               let m = current_summary es mappingSummaryCache;
                   r = run_search es m req q userEmail
               in (fst r, m, load_calls mappingSummaryCache @ snd r)))"

text \<open>The store's reading of a query on a document \<open>d\<close>, given what each leaf clause
  (term, match, multi-match) decides: a \<^verbatim>\<open>bool\<close> query matches when every \<^verbatim>\<open>must\<close> and
  every \<^verbatim>\<open>filter\<close> clause matches and at least \<^verbatim>\<open>minimum_should_match\<close> of the
  \<^verbatim>\<open>should\<close> clauses do; without that number, one \<^verbatim>\<open>should\<close> clause must match when
  there is neither \<^verbatim>\<open>must\<close> nor \<^verbatim>\<open>filter\<close>, and none otherwise.\<close>

fun matches :: "(clause \<Rightarrow> 'd \<Rightarrow> bool) \<Rightarrow> clause \<Rightarrow> 'd \<Rightarrow> bool" where
  "matches leaf (BoolQ must flt should msm) d =
     (list_all (\<lambda>c. matches leaf c d) must \<and>
      list_all (\<lambda>c. matches leaf c d) flt \<and>
      (case msm of
         Some n \<Rightarrow> n \<le> length (filter (\<lambda>c. matches leaf c d) should)
       | None \<Rightarrow> (if must = [] \<and> flt = [] \<and> should \<noteq> []
                  then list_ex (\<lambda>c. matches leaf c d) should else True)))"
| "matches leaf (TermQ f v) d = leaf (TermQ f v) d"
| "matches leaf (MatchQ f v) d = leaf (MatchQ f v) d"
| "matches leaf (MultiMatchQ q t fs opr) d = leaf (MultiMatchQ q t fs opr) d"

section \<open>The classifier of the generic indexing endpoint\<close>

text \<open>
  \<^verbatim>\<open>const explicit = req.body.docType || req.body.type || req.body.collection\<close>
  \<^verbatim>\<open>  || req.body?.payload?.collection || req.body?.table\<close>
  \<^verbatim>\<open>  || req.headers['x-doc-type'] || req.headers['x-collection'];\<close>
\<close>

definition explicit_hint :: "request \<Rightarrow> json" where
  "explicit_hint req =
     js_or (js_or (js_or (js_or (js_or (js_or (field (body req) ''docType'') (field (body req) ''type''))
                                       (field (body req) ''collection''))
                                (field (field (body req) ''payload'') ''collection''))
                         (field (body req) ''table''))
                  (header req ''x-doc-type''))
           (header req ''x-collection'')"

text \<open>The block under \<^verbatim>\<open>typeof explicit === 'string'\<close>; \<open>None\<close> when no branch
  returns.\<close>

definition hint_type :: "json \<Rightarrow> string option" where
  "hint_type explicit =
     (case explicit of
        JStr s \<Rightarrow>
          (let low = toLowerCase s in
           if str_includes low ''task'' then Some ''tasks''
           else if str_includes low ''org'' \<and> str_includes low ''member'' then Some ''orgmembers''
           else if str_includes low ''org'' \<or> str_includes low ''organization'' then Some ''organizations''
           else if str_includes low ''team'' then Some ''teams''
           else None)
      | _ \<Rightarrow> None)"

text \<open>\<^verbatim>\<open>doc.email || doc.role\<close>\<close>

definition looks_orgmember :: "json \<Rightarrow> bool" where
  "looks_orgmember doc = truthy (js_or (field doc ''email'') (field doc ''role''))"

text \<open>\<^verbatim>\<open>doc.slug || (Array.isArray(doc.teams) && doc.teams.length)\<close>
  \<^verbatim>\<open>  || (Array.isArray(doc.members) && doc.members.length && typeof doc.members[0] === 'object')\<close>\<close>

definition looks_organization :: "json \<Rightarrow> bool" where
  "looks_organization doc =
     (truthy (field doc ''slug'')
      \<or> (case field doc ''teams'' of JArr (t # ts) \<Rightarrow> True | _ \<Rightarrow> False)
      \<or> (case field doc ''members'' of JArr (m # ms) \<Rightarrow> typeof m = ''object'' | _ \<Rightarrow> False))"

text \<open>\<^verbatim>\<open>doc.name && Array.isArray(doc.members) && doc.members.length\<close>
  \<^verbatim>\<open>  && doc.members.every((m) => typeof m === 'string')\<close>\<close>

definition looks_team :: "json \<Rightarrow> bool" where
  "looks_team doc =
     (truthy (field doc ''name'')
      \<and> (case field doc ''members'' of
            JArr (m # ms) \<Rightarrow> list_all (\<lambda>x. typeof x = ''string'') (m # ms)
          | _ \<Rightarrow> False))"

text \<open>\<^verbatim>\<open>doc.title || doc.userEmail || doc.description || doc.status\<close>\<close>

definition looks_task :: "json \<Rightarrow> bool" where
  "looks_task doc =
     truthy (js_or (js_or (js_or (field doc ''title'') (field doc ''userEmail'')) (field doc ''description''))
                   (field doc ''status''))"

definition detectDocType :: "request \<Rightarrow> json \<Rightarrow> string" where
  "detectDocType req doc =
     (case hint_type (explicit_hint req) of
        Some t \<Rightarrow> t
      | None \<Rightarrow>
          if looks_orgmember doc then ''orgmembers''
          else if looks_organization doc then ''organizations''
          else if looks_team doc then ''teams''
          else if looks_task doc then ''tasks''
          else ''tasks'')"

section \<open>Notions the properties are stated with\<close>

text \<open>The answer of the organization endpoint after a child merge.\<close>

definition merged_response :: "json \<Rightarrow> response" where
  "merged_response p =
     Response 200 (JObj [(''ok'', JBool True), (''action'', JStr ''merged_into_organization''), (''id'', p)])"

definition deleted_response :: "json \<Rightarrow> response" where
  "deleted_response i = Response 200 (JObj [(''ok'', JBool True), (''action'', JStr ''deleted''), (''id'', i)])"

definition missing_parent_response :: response where
  "missing_parent_response =
     Response 400 (JObj [(''ok'', JBool False), (''error'', JStr ''missing_parent_org_id'')])"

text \<open>Two collections differ in the one entry with the identifier of \<open>e\<close>: either the
  first entry of \<open>xs\<close> with that identifier is replaced, at its place, by its shallow
  merge with \<open>e\<close> and every other entry is as before, or no entry of \<open>xs\<close> has that
  identifier and \<open>ys\<close> is \<open>xs\<close> with \<open>e\<close> appended.\<close>

definition differs_in_one_entry :: "json \<Rightarrow> json list \<Rightarrow> json list \<Rightarrow> bool" where
  "differs_in_one_entry e xs ys =
     ((\<exists>i<length xs. same_id e (xs ! i) \<and> length ys = length xs \<and>
          ys ! i = JObj (obj_literal (own_props (xs ! i) @ own_props e)) \<and>
          (\<forall>j<length xs. j \<noteq> i \<longrightarrow> ys ! j = xs ! j))
      \<or> ((\<forall>x\<in>set xs. \<not> same_id e x) \<and> length ys = Suc (length xs) \<and>
          ys ! length xs = e \<and> (\<forall>j<length xs. ys ! j = xs ! j)))"

text \<open>A sequence of requests to the organization endpoint, each run on the store the
  one before left.\<close>

fun run_org :: "request list \<Rightarrow> store \<Rightarrow> store" where
  "run_org [] st = st"
| "run_org (r # rs) st = run_org rs (snd (organization_handler r st))"

text \<open>The payload of a request, when it is a full organization, gives its \<^verbatim>\<open>members\<close>
  and \<^verbatim>\<open>teams\<close>, if at all, as arrays.\<close>

definition collections_typed :: "request \<Rightarrow> bool" where
  "collections_typed req =
     (is_full_organization (document_of req) \<longrightarrow>
        (\<not> truthy (field (document_of req) ''members'') \<or> isArray (field (document_of req) ''members'')) \<and>
        (\<not> truthy (field (document_of req) ''teams'') \<or> isArray (field (document_of req) ''teams'')))"

text \<open>The invariant of a stored aggregate, and of the organizations index of a store.\<close>

definition aggregate_ok :: "props \<Rightarrow> bool" where
  "aggregate_ok d =
     (field (JObj d) ''docType'' = JStr ''organizations'' \<and>
      field (JObj d) ''members'' \<noteq> JUndef \<and> field (JObj d) ''teams'' \<noteq> JUndef)"

definition aggregate_arrays :: "props \<Rightarrow> bool" where
  "aggregate_arrays d = (isArray (field (JObj d) ''members'') \<and> isArray (field (JObj d) ''teams''))"

definition organizations_all :: "(props \<Rightarrow> bool) \<Rightarrow> store \<Rightarrow> bool" where
  "organizations_all P st = (\<forall>i d. st (''organizations'', i) = Some d \<longrightarrow> P d)"

text \<open>The child merge of the payload into the fetched aggregate throws: a collection the
  payload is merged into holds, in the aggregate, a truthy value that is no array (and so
  has no \<^verbatim>\<open>findIndex\<close>).\<close>

definition merge_throws :: "json \<Rightarrow> props \<Rightarrow> bool" where
  "merge_throws document orgDoc =
     (is_member_payload document \<and> truthy (field (JObj orgDoc) ''members'') \<and>
        \<not> isArray (field (JObj orgDoc) ''members'')
      \<or> is_team_payload document \<and> truthy (field (JObj orgDoc) ''teams'') \<and>
        \<not> isArray (field (JObj orgDoc) ''teams''))"

text \<open>The classifier's heuristics as the ordered rule list of the specification: the
  first rule whose test holds names the kind, and the default is the task.\<close>

definition heuristic_rules :: "(string \<times> (json \<Rightarrow> bool)) list" where
  "heuristic_rules =
     [(''orgmembers'', looks_orgmember), (''organizations'', looks_organization),
      (''teams'', looks_team), (''tasks'', looks_task)]"

fun first_match :: "(string \<times> (json \<Rightarrow> bool)) list \<Rightarrow> string \<Rightarrow> json \<Rightarrow> string" where
  "first_match [] dflt doc = dflt"
| "first_match (r # rs) dflt doc = (if snd r doc then fst r else first_match rs dflt doc)"

section \<open>Example requests and stores\<close>

definition ex_task_req :: request where
  "ex_task_req =
     \<lparr>body = JObj [(''event'', JStr ''databases.tasks.create''),
                   (''document'', JObj [(''$id'', JStr ''t1''), (''title'', JStr ''Design review''),
                                        (''userEmail'', JStr ''a@x.com'')])],
      headers = [], url_query = [], now_member = 1700, now_team = 1701\<rparr>"

text \<open>An organization with members Ann and Bob and one team.\<close>

definition ex_org :: props where
  "ex_org =
     [(''docType'', JStr ''organizations''), (''name'', JStr ''Acme''), (''slug'', JStr ''acme''),
      (''description'', JStr ''Tools''),
      (''members'', JArr [JObj [(''$id'', JStr ''mA''), (''name'', JStr ''Ann''),
                                (''email'', JStr ''ann@x.com''), (''role'', JStr ''owner'')],
                          JObj [(''$id'', JStr ''mB''), (''name'', JStr ''Bob''),
                                (''email'', JStr ''bob@x.com''), (''role'', JStr ''member'')]]),
      (''teams'', JArr [JObj [(''$id'', JStr ''tT''), (''name'', JStr ''Core''),
                              (''members'', JArr [JStr ''mA''])]]),
      (''createdAt'', JStr ''2024-01-01'')]"

definition ex_org_store :: store where
  "ex_org_store = es_index ''organizations'' (JStr ''o1'') ex_org empty_store"

text \<open>An update of member Bob, naming its organization.\<close>

definition ex_member_req :: request where
  "ex_member_req =
     \<lparr>body = JObj [(''event'', JStr ''databases.members.update''),
                   (''document'', JObj [(''$id'', JStr ''mB''), (''email'', JStr ''bob@y.com''),
                                        (''organizationId'', JStr ''o1'')])],
      headers = [], url_query = [], now_member = 1700, now_team = 1701\<rparr>"

text \<open>A payload that passes the member test and the team test.\<close>

definition ex_both_req :: request where
  "ex_both_req =
     \<lparr>body = JObj [(''event'', JStr ''create''),
                   (''document'', JObj [(''email'', JStr ''cy@x.com''), (''name'', JStr ''Cy''),
                                        (''members'', JArr [JStr ''mA'']), (''organizationId'', JStr ''o1'')])],
      headers = [], url_query = [], now_member = 1700, now_team = 1701\<rparr>"

text \<open>A member payload with an identifier and nothing that names its organization,
  and a delete event whose payload is the identifier of an organization alone.\<close>

definition ex_orphan_req :: request where
  "ex_orphan_req =
     \<lparr>body = JObj [(''event'', JStr ''databases.members.create''),
                   (''document'', JObj [(''$id'', JStr ''m9''), (''email'', JStr ''a@x.com'')])],
      headers = [], url_query = [], now_member = 1700, now_team = 1701\<rparr>"

definition ex_bare_delete_req :: request where
  "ex_bare_delete_req =
     \<lparr>body = JObj [(''event'', JStr ''databases.organizations.delete''),
                   (''document'', JObj [(''$id'', JStr ''o1'')])],
      headers = [], url_query = [], now_member = 1700, now_team = 1701\<rparr>"

text \<open>Delete events whose payload has no identifier: one without any reference to a
  parent, one that names its parent in \<^verbatim>\<open>parentOrgId\<close>.\<close>

definition ex_delete_noid_req :: request where
  "ex_delete_noid_req =
     \<lparr>body = JObj [(''event'', JStr ''databases.members.delete''),
                   (''document'', JObj [(''email'', JStr ''a@x.com'')])],
      headers = [], url_query = [], now_member = 1700, now_team = 1701\<rparr>"

definition ex_delete_parent_req :: request where
  "ex_delete_parent_req =
     \<lparr>body = JObj [(''event'', JStr ''databases.members.delete''),
                   (''document'', JObj [(''email'', JStr ''a@x.com''), (''parentOrgId'', JStr ''o1'')])],
      headers = [], url_query = [], now_member = 1700, now_team = 1701\<rparr>"

text \<open>A full organization payload.\<close>

definition ex_org_req :: request where
  "ex_org_req =
     \<lparr>body = JObj [(''event'', JStr ''databases.organizations.create''),
                   (''document'', JObj [(''$id'', JStr ''o1''), (''name'', JStr ''Acme'')])],
      headers = [], url_query = [], now_member = 1700, now_team = 1701\<rparr>"

text \<open>Full organization payloads whose \<^verbatim>\<open>members\<close> is no array: a string, and the
  number \<^verbatim>\<open>1e999\<close>, which is parsed as infinity. The store the first leaves.\<close>

definition ex_untyped_org_req :: request where
  "ex_untyped_org_req =
     \<lparr>body = JObj [(''event'', JStr ''databases.organizations.create''),
                   (''document'', JObj [(''$id'', JStr ''o1''), (''name'', JStr ''Acme''),
                                        (''members'', JStr ''abc'')])],
      headers = [], url_query = [], now_member = 1700, now_team = 1701\<rparr>"

definition ex_infinite_org_req :: request where
  "ex_infinite_org_req =
     \<lparr>body = JObj [(''event'', JStr ''databases.organizations.create''),
                   (''document'', JObj [(''$id'', JStr ''o1''), (''name'', JStr ''Acme''),
                                        (''members'', JPosInf)])],
      headers = [], url_query = [], now_member = 1700, now_team = 1701\<rparr>"

definition ex_untyped_store :: store where
  "ex_untyped_store = run_org [ex_untyped_org_req] empty_store"

text \<open>Search requests, and a store whose mapping has a keyword sub-field for the owner
  of a task and none for the e-mail of a member.\<close>

definition ex_search_req :: request where
  "ex_search_req =
     \<lparr>body = JObj [(''query'', JStr ''desi''), (''userEmail'', JStr ''a@x.com'')],
      headers = [], url_query = [], now_member = 1700, now_team = 1701\<rparr>"

definition ex_short_search_req :: request where
  "ex_short_search_req =
     \<lparr>body = JObj [(''query'', JStr '' d ''), (''userEmail'', JStr ''a@x.com'')],
      headers = [], url_query = [], now_member = 1700, now_team = 1701\<rparr>"

definition ex_mapping :: json where
  "ex_mapping =
     JObj [(''tasks'', JObj [(''mappings'', JObj [(''properties'',
              JObj [(''userEmail'', JObj [(''type'', JStr ''text''),
                                          (''fields'', JObj [(''keyword'', JObj [(''type'', JStr ''keyword'')])])]),
                    (''title'', JObj [(''type'', JStr ''text'')])])])]),
           (''organizations'', JObj [(''mappings'', JObj [(''properties'',
              JObj [(''members'', JObj [(''properties'',
                       JObj [(''email'', JObj [(''type'', JStr ''text'')])])])])])])]"

definition ex_client :: es_client where
  "ex_client = \<lparr>getMapping = ex_mapping, search = (\<lambda>r. Some (JObj [(''hits'', JObj [(''hits'', JArr [])])]))\<rparr>"

text \<open>A classifier input: a payload with an e-mail and a title, no hint of its type.\<close>

definition ex_classify_req :: request where
  "ex_classify_req =
     \<lparr>body = JObj [(''event'', JStr ''create''),
                   (''document'', JObj [(''$id'', JStr ''d1''), (''email'', JStr ''a@x.com''),
                                        (''title'', JStr ''Design review'')])],
      headers = [], url_query = [], now_member = 1700, now_team = 1701\<rparr>"

section \<open>Auxiliary facts\<close>

text \<open>The definitions a handler unfolds to on a concrete request.\<close>

lemmas request_defs =
  event_of_def document_of_def header_def js_or_def js_and_def is_delete_event_def Let_def

lemmas organization_defs =
  organization_handler_def org_id_of_def is_full_organization_def parent_org_id_def fetch_org_def
  merge_child_def merge_collection_def is_member_payload_def is_team_payload_def member_of_def
  team_of_def upsert_entry_def same_id_def set_prop_def obj_literal_def organization_body_def
  empty_org_def es_get_def es_index_def es_delete_def empty_store_def index_failed_def
  merged_response_def deleted_response_def missing_parent_response_def

lemma truthy_js_or [simp]: "truthy (js_or a b) \<longleftrightarrow> truthy a \<or> truthy b"
  by (simp add: js_or_def)

lemma truthy_js_and [simp]: "truthy (js_and a b) \<longleftrightarrow> truthy a \<and> truthy b"
  by (simp add: js_and_def)

lemma field_set_prop:
  "field (JObj (set_prop ps k v)) k' = (if k' = k then v else field (JObj ps) k')"
  by (simp add: set_prop_def update_conv)

lemma findIndex_None: "findIndex p xs = None \<longleftrightarrow> (\<forall>x\<in>set xs. \<not> p x)"
  by (induction xs) (auto split: option.splits)

lemma findIndex_Some:
  "findIndex p xs = Some i \<Longrightarrow> i < length xs \<and> p (xs ! i) \<and> (\<forall>j<i. \<not> p (xs ! j))"
proof (induction xs arbitrary: i)
  case Nil
  then show ?case by simp
next
  case (Cons x xs)
  show ?case
  proof (cases "p x")
    case True
    with Cons.prems show ?thesis by simp
  next
    case False
    with Cons.prems obtain k where k: "findIndex p xs = Some k" "i = Suc k"
      by (auto split: option.splits)
    from Cons.IH[OF k(1)] False k(2) show ?thesis
      by (auto simp: less_Suc_eq_0_disj)
  qed
qed

lemma upsert_entry_differs: "differs_in_one_entry e xs (upsert_entry e xs)"
proof (cases "findIndex (same_id e) xs")
  case None
  then have "\<forall>x\<in>set xs. \<not> same_id e x"
    by (simp add: findIndex_None)
  with None show ?thesis
    by (simp add: differs_in_one_entry_def upsert_entry_def nth_append)
next
  case (Some i)
  from findIndex_Some[OF Some] Some show ?thesis
    by (auto simp: differs_in_one_entry_def upsert_entry_def)
qed

lemma merge_collection_Some:
  assumes "merge_collection k e f = Some w"
  shows "\<exists>xs. js_or (field (JObj f) k) (JArr []) = JArr xs \<and> w = set_prop f k (JArr (upsert_entry e xs))"
  using assms by (auto simp: merge_collection_def split: json.splits)

lemma merge_collection_array:
  "js_or (field (JObj f) k) (JArr []) = JArr xs \<Longrightarrow>
     merge_collection k e f = Some (set_prop f k (JArr (upsert_entry e xs)))"
  by (simp add: merge_collection_def)

text \<open>What a successful merge writes, field by field.\<close>

lemma merge_child_fields:
  assumes "merge_child t t' d f = Some w"
  shows "(\<forall>k. k \<noteq> ''members'' \<and> k \<noteq> ''teams'' \<and> k \<noteq> ''docType'' \<longrightarrow> field (JObj w) k = field (JObj f) k)"
    and "field (JObj w) ''docType'' = JStr ''organizations''"
    and "is_member_payload d \<Longrightarrow> \<exists>ms. js_or (field (JObj f) ''members'') (JArr []) = JArr ms \<and>
            field (JObj w) ''members'' = JArr (upsert_entry (member_of t d) ms)"
    and "\<not> is_member_payload d \<Longrightarrow> field (JObj w) ''members'' = field (JObj f) ''members''"
    and "is_team_payload d \<Longrightarrow> \<exists>ts. js_or (field (JObj f) ''teams'') (JArr []) = JArr ts \<and>
            field (JObj w) ''teams'' = JArr (upsert_entry (team_of t' d) ts)"
    and "\<not> is_team_payload d \<Longrightarrow> field (JObj w) ''teams'' = field (JObj f) ''teams''"
proof -
  from assms obtain o1 o2 where
    o1: "(if is_member_payload d then merge_collection ''members'' (member_of t d) f else Some f) = Some o1"
    and o2: "(if is_team_payload d then merge_collection ''teams'' (team_of t' d) o1 else Some o1) = Some o2"
    and w: "w = set_prop o2 ''docType'' (JStr ''organizations'')"
    by (auto simp: merge_child_def split: option.splits)
  have f1: "\<forall>k. k \<noteq> ''members'' \<longrightarrow> field (JObj o1) k = field (JObj f) k"
    using o1 by (auto simp: field_set_prop simp del: field.simps dest!: merge_collection_Some split: if_splits)
  have f2: "\<forall>k. k \<noteq> ''teams'' \<longrightarrow> field (JObj o2) k = field (JObj o1) k"
    using o2 by (auto simp: field_set_prop simp del: field.simps dest!: merge_collection_Some split: if_splits)
  show "\<forall>k. k \<noteq> ''members'' \<and> k \<noteq> ''teams'' \<and> k \<noteq> ''docType'' \<longrightarrow> field (JObj w) k = field (JObj f) k"
    using f1 f2 w by (simp add: field_set_prop del: field.simps)
  show "field (JObj w) ''docType'' = JStr ''organizations''"
    using w by (simp add: field_set_prop del: field.simps)
  show "\<exists>ms. js_or (field (JObj f) ''members'') (JArr []) = JArr ms \<and>
            field (JObj w) ''members'' = JArr (upsert_entry (member_of t d) ms)" if "is_member_payload d"
  proof -
    from o1 that obtain ms where ms: "js_or (field (JObj f) ''members'') (JArr []) = JArr ms"
      "o1 = set_prop f ''members'' (JArr (upsert_entry (member_of t d) ms))"
      by (auto dest!: merge_collection_Some)
    have "field (JObj w) ''members'' = field (JObj o1) ''members''"
      using f2 w by (simp add: field_set_prop del: field.simps)
    with ms show ?thesis by (simp add: field_set_prop del: field.simps)
  qed
  show "field (JObj w) ''members'' = field (JObj f) ''members''" if "\<not> is_member_payload d"
    using that o1 f2 w by (simp add: field_set_prop del: field.simps)
  show "\<exists>ts. js_or (field (JObj f) ''teams'') (JArr []) = JArr ts \<and>
            field (JObj w) ''teams'' = JArr (upsert_entry (team_of t' d) ts)" if "is_team_payload d"
  proof -
    from o2 that obtain ts where ts: "js_or (field (JObj o1) ''teams'') (JArr []) = JArr ts"
      "o2 = set_prop o1 ''teams'' (JArr (upsert_entry (team_of t' d) ts))"
      by (auto dest!: merge_collection_Some)
    have "field (JObj o1) ''teams'' = field (JObj f) ''teams''"
      using f1 by (simp del: field.simps)
    with ts w show ?thesis by (simp add: field_set_prop del: field.simps)
  qed
  show "field (JObj w) ''teams'' = field (JObj f) ''teams''" if "\<not> is_team_payload d"
    using that o2 f1 w by (simp add: field_set_prop del: field.simps)
qed

text \<open>The handler answers "merged" only from its last branch.\<close>

lemma organization_handler_merged:
  assumes "organization_handler req st = (merged_response p, st')"
  shows "\<exists>w. merge_child (now_member req) (now_team req) (document_of req) (fetch_org p st) = Some w \<and>
             st' = st((''organizations'', p) \<mapsto> w) \<and> p = parent_org_id (document_of req) \<and>
             \<not> is_full_organization (document_of req)"
  using assms
  by (auto simp: organization_handler_def merged_response_def index_failed_def Let_def es_index_def
           split: if_splits option.splits)

subsection \<open>The child merge throws or succeeds\<close>

lemma merge_collection_None:
  "merge_collection k e f = None \<longleftrightarrow>
     truthy (field (JObj f) k) \<and> \<not> isArray (field (JObj f) k)"
  by (cases "field (JObj f) k") (simp_all add: merge_collection_def js_or_def del: field.simps)

lemma merge_child_None: "merge_child t t' d f = None \<longleftrightarrow> merge_throws d f"
proof (cases "is_member_payload d")
  case False
  then have "merge_child t t' d f = None \<longleftrightarrow>
      is_team_payload d \<and> merge_collection ''teams'' (team_of t' d) f = None"
    by (simp add: merge_child_def split: option.splits)
  with False show ?thesis
    by (simp add: merge_throws_def merge_collection_None del: field.simps)
next
  case True
  show ?thesis
  proof (cases "merge_collection ''members'' (member_of t d) f")
    case None
    then have "truthy (field (JObj f) ''members'') \<and> \<not> isArray (field (JObj f) ''members'')"
      by (simp add: merge_collection_None del: field.simps)
    with True have "merge_throws d f"
      by (simp add: merge_throws_def del: field.simps)
    moreover from True None have "merge_child t t' d f = None"
      by (simp add: merge_child_def)
    ultimately show ?thesis by simp
  next
    case (Some o1)
    from merge_collection_Some[OF Some] have t: "field (JObj o1) ''teams'' = field (JObj f) ''teams''"
      by (auto simp: field_set_prop simp del: field.simps)
    from Some have m: "\<not> (truthy (field (JObj f) ''members'') \<and> \<not> isArray (field (JObj f) ''members''))"
      using merge_collection_None[of "''members''" "member_of t d" f] by simp
    from True Some have "merge_child t t' d f = None \<longleftrightarrow>
        is_team_payload d \<and> merge_collection ''teams'' (team_of t' d) o1 = None"
      by (simp add: merge_child_def split: option.splits)
    with m show ?thesis
      unfolding merge_throws_def merge_collection_None t by blast
  qed
qed

subsection \<open>The invariant of the stored aggregates\<close>

lemma json_form_not_undef: "v \<noteq> JUndef \<Longrightarrow> json_form v \<noteq> JUndef"
  by (cases v) simp_all

text \<open>A property that holds a value is, in the JSON form of the object, a property that
  holds the JSON form of the value.\<close>

lemma field_json_form_props:
  "field (JObj kvs) k \<noteq> JUndef \<Longrightarrow>
     field (JObj (json_form_props kvs)) k = json_form (field (JObj kvs) k)"
  by (induction kvs) (auto split: option.splits)

lemma aggregate_ok_json_form:
  assumes "aggregate_ok d"
  shows "aggregate_ok (json_form_props d)"
proof -
  from assms have "field (JObj (json_form_props d)) ''docType'' = json_form (JStr ''organizations'')"
    using field_json_form_props[of d "''docType''"] by (simp add: aggregate_ok_def del: field.simps)
  moreover from assms have "field (JObj (json_form_props d)) ''members'' \<noteq> JUndef"
    using field_json_form_props[of d "''members''"] json_form_not_undef
    by (simp add: aggregate_ok_def del: field.simps)
  moreover from assms have "field (JObj (json_form_props d)) ''teams'' \<noteq> JUndef"
    using field_json_form_props[of d "''teams''"] json_form_not_undef
    by (simp add: aggregate_ok_def del: field.simps)
  ultimately show ?thesis
    by (simp add: aggregate_ok_def del: field.simps)
qed

lemma isArray_json_form_field:
  assumes "isArray (field (JObj d) k)"
  shows "isArray (field (JObj (json_form_props d)) k)"
proof -
  from assms obtain xs where xs: "field (JObj d) k = JArr xs"
    by (cases "field (JObj d) k") (simp_all del: field.simps)
  then have "field (JObj (json_form_props d)) k = json_form (JArr xs)"
    using field_json_form_props[of d k] by (simp del: field.simps)
  then show ?thesis
    by (simp del: field.simps)
qed

lemma aggregate_arrays_json_form: "aggregate_arrays d \<Longrightarrow> aggregate_arrays (json_form_props d)"
  by (simp add: aggregate_arrays_def isArray_json_form_field del: field.simps)

lemma aggregate_ok_empty_org: "aggregate_ok empty_org \<and> aggregate_arrays empty_org"
  by (simp add: aggregate_ok_def aggregate_arrays_def empty_org_def)

lemma js_or_empty_not_undef: "js_or v (JArr []) \<noteq> JUndef"
  by (cases v) (simp_all add: js_or_def)

lemma aggregate_ok_organization_body: "aggregate_ok (organization_body d)"
  by (simp add: aggregate_ok_def organization_body_def js_or_empty_not_undef)

lemma isArray_js_or_empty: "\<not> truthy v \<or> isArray v \<Longrightarrow> isArray (js_or v (JArr []))"
  by (auto simp: js_or_def)

lemma aggregate_arrays_organization_body:
  assumes "\<not> truthy (field d ''members'') \<or> isArray (field d ''members'')"
    and "\<not> truthy (field d ''teams'') \<or> isArray (field d ''teams'')"
  shows "aggregate_arrays (organization_body d)"
  using assms[THEN isArray_js_or_empty] by (simp add: aggregate_arrays_def organization_body_def)

lemma merge_child_ok:
  assumes "merge_child t t' d f = Some w" and "aggregate_ok f"
  shows "aggregate_ok w"
proof -
  note F = merge_child_fields[OF assms(1)]
  have "field (JObj w) ''members'' \<noteq> JUndef"
    using F(3) F(4) assms(2) by (cases "is_member_payload d") (auto simp: aggregate_ok_def simp del: field.simps)
  moreover have "field (JObj w) ''teams'' \<noteq> JUndef"
    using F(5) F(6) assms(2) by (cases "is_team_payload d") (auto simp: aggregate_ok_def simp del: field.simps)
  ultimately show ?thesis
    using F(2) by (simp add: aggregate_ok_def del: field.simps)
qed

lemma merge_child_arrays:
  assumes "merge_child t t' d f = Some w" and "aggregate_arrays f"
  shows "aggregate_arrays w"
proof -
  note F = merge_child_fields[OF assms(1)]
  have "isArray (field (JObj w) ''members'')"
    using F(3) F(4) assms(2) by (cases "is_member_payload d") (auto simp: aggregate_arrays_def simp del: field.simps)
  moreover have "isArray (field (JObj w) ''teams'')"
    using F(5) F(6) assms(2) by (cases "is_team_payload d") (auto simp: aggregate_arrays_def simp del: field.simps)
  ultimately show ?thesis
    by (simp add: aggregate_arrays_def del: field.simps)
qed

text \<open>What the handler fetches is the JSON form of a stored document, or the empty
  aggregate.\<close>

lemma fetch_org_all:
  assumes "organizations_all P st" and "P empty_org" and "\<And>d. P d \<Longrightarrow> P (json_form_props d)"
  shows "P (fetch_org p st)"
  using assms by (auto simp: fetch_org_def es_get_def organizations_all_def split: option.splits)

text \<open>Every store the handler leaves is the one it found, with at most the document of
  one organization removed or replaced.\<close>

lemma organization_handler_store:
  "snd (organization_handler req st) = st
   \<or> (\<exists>i. snd (organization_handler req st) = st((''organizations'', i) := None))
   \<or> (is_full_organization (document_of req) \<and>
      snd (organization_handler req st) =
        st((''organizations'', field (document_of req) ''$id'') \<mapsto> organization_body (document_of req)))
   \<or> (\<exists>p w. merge_child (now_member req) (now_team req) (document_of req) (fetch_org p st) = Some w \<and>
        snd (organization_handler req st) = st((''organizations'', p) \<mapsto> w))"
  by (auto simp: organization_handler_def Let_def es_index_def es_delete_def split: option.splits)

lemma organization_handler_ok:
  assumes "organizations_all aggregate_ok st"
  shows "organizations_all aggregate_ok (snd (organization_handler req st))"
proof -
  have f: "aggregate_ok (fetch_org p st)" for p
    using assms aggregate_ok_empty_org aggregate_ok_json_form by (blast intro: fetch_org_all)
  from organization_handler_store[of req st] show ?thesis
  proof (elim disjE exE conjE)
    assume "snd (organization_handler req st) = st"
    with assms show ?thesis by simp
  next
    fix i assume "snd (organization_handler req st) = st((''organizations'', i) := None)"
    with assms show ?thesis by (simp add: organizations_all_def)
  next
    assume "snd (organization_handler req st) =
        st((''organizations'', field (document_of req) ''$id'') \<mapsto> organization_body (document_of req))"
    with assms aggregate_ok_organization_body show ?thesis
      by (simp add: organizations_all_def)
  next
    fix p w assume "merge_child (now_member req) (now_team req) (document_of req) (fetch_org p st) = Some w"
      and s: "snd (organization_handler req st) = st((''organizations'', p) \<mapsto> w)"
    then have "aggregate_ok w"
      using f merge_child_ok by blast
    with assms s show ?thesis
      by (simp add: organizations_all_def)
  qed
qed

lemma organization_handler_arrays:
  assumes "organizations_all aggregate_arrays st" and "collections_typed req"
  shows "organizations_all aggregate_arrays (snd (organization_handler req st))"
proof -
  have f: "aggregate_arrays (fetch_org p st)" for p
    using assms(1) aggregate_ok_empty_org aggregate_arrays_json_form by (blast intro: fetch_org_all)
  have b: "aggregate_arrays (organization_body (document_of req))"
    if "is_full_organization (document_of req)"
    using assms(2) that by (intro aggregate_arrays_organization_body) (simp_all add: collections_typed_def)
  from organization_handler_store[of req st] show ?thesis
  proof (elim disjE exE conjE)
    assume "snd (organization_handler req st) = st"
    with assms show ?thesis by simp
  next
    fix i assume "snd (organization_handler req st) = st((''organizations'', i) := None)"
    with assms show ?thesis by (simp add: organizations_all_def)
  next
    assume "is_full_organization (document_of req)"
      and "snd (organization_handler req st) =
        st((''organizations'', field (document_of req) ''$id'') \<mapsto> organization_body (document_of req))"
    with assms b show ?thesis
      by (simp add: organizations_all_def)
  next
    fix p w assume "merge_child (now_member req) (now_team req) (document_of req) (fetch_org p st) = Some w"
      and s: "snd (organization_handler req st) = st((''organizations'', p) \<mapsto> w)"
    then have "aggregate_arrays w"
      using f merge_child_arrays by blast
    with assms s show ?thesis
      by (simp add: organizations_all_def)
  qed
qed

lemma run_org_ok:
  "organizations_all aggregate_ok st \<Longrightarrow> organizations_all aggregate_ok (run_org reqs st)"
  by (induction reqs arbitrary: st) (simp_all add: organization_handler_ok)

lemma run_org_arrays:
  "organizations_all aggregate_arrays st \<Longrightarrow> list_all collections_typed reqs \<Longrightarrow>
     organizations_all aggregate_arrays (run_org reqs st)"
  by (induction reqs arbitrary: st) (simp_all add: organization_handler_arrays)


section \<open>Properties of the task endpoint\<close>

text \<open>
  C8. Running the task endpoint a second time on the same request, on the store the first
  run left, gives the same answer and leaves that store as it is. For an upsert (the
  payload has a \<^verbatim>\<open>$id\<close> and the event is no delete event) the first run stores, under the
  task's identifier, the projection of the payload, whatever was stored there before.
\<close>

theorem task_upsert_idempotent:
  "task_handler req (snd (task_handler req st)) = task_handler req st \<and>
   (truthy (field (document_of req) ''$id'') \<and> is_delete_event (event_of req) = Some False \<longrightarrow>
      snd (task_handler req st) =
        st((''tasks'', field (document_of req) ''$id'') \<mapsto> task_body (document_of req)))"
  by (auto simp: task_handler_def Let_def es_index_def es_delete_def split: option.splits)

theorem task_upsert_idempotent_witness:
  "truthy (field (document_of ex_task_req) ''$id'') \<and>
   is_delete_event (event_of ex_task_req) = Some False \<and>
   task_handler ex_task_req (snd (task_handler ex_task_req empty_store)) = task_handler ex_task_req empty_store \<and>
   snd (task_handler ex_task_req empty_store) (''tasks'', JStr ''t1'') =
     Some (task_body (JObj [(''$id'', JStr ''t1''), (''title'', JStr ''Design review''),
                            (''userEmail'', JStr ''a@x.com'')]))"
proof -
  have d: "document_of ex_task_req =
     JObj [(''$id'', JStr ''t1''), (''title'', JStr ''Design review''), (''userEmail'', JStr ''a@x.com'')]"
    by (simp add: ex_task_req_def request_defs)
  have e: "is_delete_event (event_of ex_task_req) = Some False"
    by (simp add: ex_task_req_def request_defs)
  have i: "truthy (field (document_of ex_task_req) ''$id'')"
    unfolding d by simp
  from task_upsert_idempotent[of ex_task_req empty_store] e i
  have r: "task_handler ex_task_req (snd (task_handler ex_task_req empty_store)) = task_handler ex_task_req empty_store"
    and s: "snd (task_handler ex_task_req empty_store) =
        empty_store((''tasks'', field (document_of ex_task_req) ''$id'') \<mapsto> task_body (document_of ex_task_req))"
    by blast+
  have "snd (task_handler ex_task_req empty_store) (''tasks'', JStr ''t1'') =
     Some (task_body (JObj [(''$id'', JStr ''t1''), (''title'', JStr ''Design review''),
                            (''userEmail'', JStr ''a@x.com'')]))"
    unfolding s d by simp
  with r e i show ?thesis by blast
qed

section \<open>Properties of the organization endpoint\<close>

text \<open>
  C2. When the organization endpoint merges a child payload into the aggregate \<open>f\<close> of
  its parent \<open>p\<close> (the document the store holds under \<open>p\<close>, or the empty aggregate), the
  document \<open>w\<close> it writes under \<open>p\<close> agrees with \<open>f\<close> on every property other than
  \<^verbatim>\<open>members\<close>, \<^verbatim>\<open>teams\<close> and the tag \<^verbatim>\<open>docType\<close>, which it sets to
  \<^verbatim>\<open>organizations\<close>: so \<^verbatim>\<open>name\<close>, \<^verbatim>\<open>slug\<close>, \<^verbatim>\<open>description\<close> and \<^verbatim>\<open>createdAt\<close> are
  as fetched. If the payload passes the member test (a truthy \<^verbatim>\<open>email\<close> or \<^verbatim>\<open>role\<close>),
  the written members differ from the fetched ones in the one entry with the member's
  identifier, replaced in place or appended; otherwise \<^verbatim>\<open>members\<close> is as fetched. The
  same holds of \<^verbatim>\<open>teams\<close> and the team test (a truthy \<^verbatim>\<open>name\<close> and an array
  \<^verbatim>\<open>members\<close>). A merged payload that carries an identifier \<^verbatim>\<open>$id\<close> never passes
  the team test (its name would have made it a full organization), so it changes at most
  the member entry with that identifier.
\<close>

theorem child_merge_frame:
  assumes "organization_handler req st = (merged_response p, st')"
  shows "\<exists>w. st' = st((''organizations'', p) \<mapsto> w) \<and>
           (\<forall>k. k \<noteq> ''members'' \<and> k \<noteq> ''teams'' \<and> k \<noteq> ''docType'' \<longrightarrow>
                field (JObj w) k = field (JObj (fetch_org p st)) k) \<and>
           field (JObj w) ''docType'' = JStr ''organizations'' \<and>
           (if is_member_payload (document_of req)
            then \<exists>ms ms'. js_or (field (JObj (fetch_org p st)) ''members'') (JArr []) = JArr ms \<and>
                   field (JObj w) ''members'' = JArr ms' \<and>
                   differs_in_one_entry (member_of (now_member req) (document_of req)) ms ms'
            else field (JObj w) ''members'' = field (JObj (fetch_org p st)) ''members'') \<and>
           (if is_team_payload (document_of req)
            then \<exists>ts ts'. js_or (field (JObj (fetch_org p st)) ''teams'') (JArr []) = JArr ts \<and>
                   field (JObj w) ''teams'' = JArr ts' \<and>
                   differs_in_one_entry (team_of (now_team req) (document_of req)) ts ts'
            else field (JObj w) ''teams'' = field (JObj (fetch_org p st)) ''teams'') \<and>
           (truthy (field (document_of req) ''$id'') \<longrightarrow>
              \<not> is_team_payload (document_of req) \<and>
              field (member_of (now_member req) (document_of req)) ''$id'' = field (document_of req) ''$id'')"
proof -
  from organization_handler_merged[OF assms] obtain w where
    w: "merge_child (now_member req) (now_team req) (document_of req) (fetch_org p st) = Some w"
    and st': "st' = st((''organizations'', p) \<mapsto> w)"
    and nf: "\<not> is_full_organization (document_of req)"
    by blast
  note F = merge_child_fields[OF w]
  have m: "if is_member_payload (document_of req)
            then \<exists>ms ms'. js_or (field (JObj (fetch_org p st)) ''members'') (JArr []) = JArr ms \<and>
                   field (JObj w) ''members'' = JArr ms' \<and>
                   differs_in_one_entry (member_of (now_member req) (document_of req)) ms ms'
            else field (JObj w) ''members'' = field (JObj (fetch_org p st)) ''members''"
    using F(3) F(4) upsert_entry_differs by (cases "is_member_payload (document_of req)") auto
  have t: "if is_team_payload (document_of req)
            then \<exists>ts ts'. js_or (field (JObj (fetch_org p st)) ''teams'') (JArr []) = JArr ts \<and>
                   field (JObj w) ''teams'' = JArr ts' \<and>
                   differs_in_one_entry (team_of (now_team req) (document_of req)) ts ts'
            else field (JObj w) ''teams'' = field (JObj (fetch_org p st)) ''teams''"
    using F(5) F(6) upsert_entry_differs by (cases "is_team_payload (document_of req)") auto
  have i: "truthy (field (document_of req) ''$id'') \<longrightarrow>
              \<not> is_team_payload (document_of req) \<and>
              field (member_of (now_member req) (document_of req)) ''$id'' = field (document_of req) ''$id''"
  proof (intro impI conjI)
    assume d: "truthy (field (document_of req) ''$id'')"
    with nf have "\<not> truthy (field (document_of req) ''name'')"
      by (simp add: is_full_organization_def)
    then show "\<not> is_team_payload (document_of req)"
      by (simp add: is_team_payload_def)
    from d show "field (member_of (now_member req) (document_of req)) ''$id'' = field (document_of req) ''$id''"
      by (simp add: member_of_def js_or_def)
  qed
  from st' F(1) F(2) m t i show ?thesis by blast
qed

text \<open>The update of member Bob in the example organization: the teams, the name and the
  first member are as fetched, and Bob's entry, still second, has the new e-mail.\<close>

theorem child_merge_frame_witness:
  "organization_handler ex_member_req ex_org_store =
     (merged_response (JStr ''o1''), snd (organization_handler ex_member_req ex_org_store)) \<and>
   is_member_payload (document_of ex_member_req) \<and> \<not> is_team_payload (document_of ex_member_req) \<and>
   (\<exists>w ms ms'. snd (organization_handler ex_member_req ex_org_store) (''organizations'', JStr ''o1'') = Some w \<and>
        field (JObj w) ''teams'' = field (JObj ex_org) ''teams'' \<and>
        field (JObj w) ''name'' = field (JObj ex_org) ''name'' \<and>
        field (JObj ex_org) ''members'' = JArr ms \<and>
        field (JObj w) ''members'' = JArr ms' \<and>
        differs_in_one_entry (member_of (now_member ex_member_req) (document_of ex_member_req)) ms ms')"
proof -
  have h: "organization_handler ex_member_req ex_org_store =
     (merged_response (JStr ''o1''), snd (organization_handler ex_member_req ex_org_store))"
    by (simp add: prod_eq_iff ex_member_req_def ex_org_store_def ex_org_def request_defs organization_defs)
  have m: "is_member_payload (document_of ex_member_req)"
    by (simp add: ex_member_req_def request_defs is_member_payload_def)
  have t: "\<not> is_team_payload (document_of ex_member_req)"
    by (simp add: ex_member_req_def request_defs is_team_payload_def)
  have f: "fetch_org (JStr ''o1'') ex_org_store = ex_org"
    by (simp add: fetch_org_def es_get_def ex_org_store_def es_index_def ex_org_def)
  have a: "js_or (field (JObj ex_org) ''members'') (JArr []) = field (JObj ex_org) ''members''"
    by (simp add: ex_org_def js_or_def)
  from child_merge_frame[OF h] m t obtain w ms ms' where
    w: "snd (organization_handler ex_member_req ex_org_store) = ex_org_store((''organizations'', JStr ''o1'') \<mapsto> w)"
    and k: "\<forall>k. k \<noteq> ''members'' \<and> k \<noteq> ''teams'' \<and> k \<noteq> ''docType'' \<longrightarrow> field (JObj w) k = field (JObj ex_org) k"
    and ms: "js_or (field (JObj ex_org) ''members'') (JArr []) = JArr ms" "field (JObj w) ''members'' = JArr ms'"
      "differs_in_one_entry (member_of (now_member ex_member_req) (document_of ex_member_req)) ms ms'"
    and ts: "field (JObj w) ''teams'' = field (JObj ex_org) ''teams''"
    unfolding f by auto
  have n: "field (JObj w) ''name'' = field (JObj ex_org) ''name''"
    using k by (simp del: field.simps)
  have s: "snd (organization_handler ex_member_req ex_org_store) (''organizations'', JStr ''o1'') = Some w"
    unfolding w by simp
  from ms(1) a have "field (JObj ex_org) ''members'' = JArr ms"
    by simp
  with s ts n ms(2) ms(3) have "\<exists>w ms ms'. snd (organization_handler ex_member_req ex_org_store) (''organizations'', JStr ''o1'') = Some w \<and>
        field (JObj w) ''teams'' = field (JObj ex_org) ''teams'' \<and>
        field (JObj w) ''name'' = field (JObj ex_org) ''name'' \<and>
        field (JObj ex_org) ''members'' = JArr ms \<and>
        field (JObj w) ''members'' = JArr ms' \<and>
        differs_in_one_entry (member_of (now_member ex_member_req) (document_of ex_member_req)) ms ms'"
    by blast
  with h m t show ?thesis by blast
qed

text \<open>
  C10. The member test and the team test of the child merge are two separate steps. A
  payload that passes both, and that the endpoint merges (it has no \<^verbatim>\<open>$id\<close>, else its
  \<^verbatim>\<open>name\<close> would make it a full organization; it names a parent; it is no delete
  event with an identifier), is written in one request into both collections of the
  parent: its member record is upserted into \<^verbatim>\<open>members\<close> and its team record into
  \<^verbatim>\<open>teams\<close>, given that the fetched aggregate holds an array or nothing under each.
\<close>

theorem member_and_team_both_merged:
  assumes "is_member_payload (document_of req)"
    and "is_team_payload (document_of req)"
    and "\<not> truthy (field (document_of req) ''$id'')"
    and "is_delete_event (event_of req) = Some del"
    and "\<not> (del \<and> truthy (org_id_of (document_of req)))"
    and "truthy (parent_org_id (document_of req))"
    and "js_or (field (JObj (fetch_org (parent_org_id (document_of req)) st)) ''members'') (JArr []) = JArr ms"
    and "js_or (field (JObj (fetch_org (parent_org_id (document_of req)) st)) ''teams'') (JArr []) = JArr ts"
  shows "\<exists>w. organization_handler req st =
               (merged_response (parent_org_id (document_of req)),
                st((''organizations'', parent_org_id (document_of req)) \<mapsto> w)) \<and>
             field (JObj w) ''members'' = JArr (upsert_entry (member_of (now_member req) (document_of req)) ms) \<and>
             field (JObj w) ''teams'' = JArr (upsert_entry (team_of (now_team req) (document_of req)) ts)"
proof -
  let ?d = "document_of req"
  let ?p = "parent_org_id ?d"
  let ?f = "fetch_org ?p st"
  let ?o1 = "set_prop ?f ''members'' (JArr (upsert_entry (member_of (now_member req) ?d) ms))"
  let ?o2 = "set_prop ?o1 ''teams'' (JArr (upsert_entry (team_of (now_team req) ?d) ts))"
  let ?w = "set_prop ?o2 ''docType'' (JStr ''organizations'')"
  have m1: "merge_collection ''members'' (member_of (now_member req) ?d) ?f = Some ?o1"
    using assms(7) by (rule merge_collection_array)
  have "field (JObj ?o1) ''teams'' = field (JObj ?f) ''teams''"
    by (simp add: field_set_prop del: field.simps)
  with assms(8) have "js_or (field (JObj ?o1) ''teams'') (JArr []) = JArr ts"
    by simp
  then have m2: "merge_collection ''teams'' (team_of (now_team req) ?d) ?o1 = Some ?o2"
    by (rule merge_collection_array)
  have w: "merge_child (now_member req) (now_team req) ?d ?f = Some ?w"
    using assms(1,2) m1 m2 by (simp add: merge_child_def)
  from assms(2) have "truthy ?d"
    by (cases ?d) (simp_all add: is_team_payload_def)
  moreover from assms(3) have "\<not> is_full_organization ?d"
    by (simp add: is_full_organization_def)
  ultimately have h: "organization_handler req st = (merged_response ?p, st((''organizations'', ?p) \<mapsto> ?w))"
    using assms(4,5,6) w
    by (simp add: organization_handler_def merged_response_def es_index_def Let_def)
  from merge_child_fields(3)[OF w assms(1)] assms(7)
  have a: "field (JObj ?w) ''members'' = JArr (upsert_entry (member_of (now_member req) ?d) ms)"
    by simp
  from merge_child_fields(5)[OF w assms(2)] assms(8)
  have b: "field (JObj ?w) ''teams'' = JArr (upsert_entry (team_of (now_team req) ?d) ts)"
    by simp
  from h a b show ?thesis by blast
qed

text \<open>The example payload has an e-mail, a name and an array of members. Merged into the
  example organization, it is appended to its members (as \<^verbatim>\<open>mem_1700\<close>) and to its
  teams (as \<^verbatim>\<open>team_1701\<close>).\<close>

theorem member_and_team_both_merged_witness:
  "is_member_payload (document_of ex_both_req) \<and> is_team_payload (document_of ex_both_req) \<and>
   \<not> truthy (field (document_of ex_both_req) ''$id'') \<and>
   is_delete_event (event_of ex_both_req) = Some False \<and>
   parent_org_id (document_of ex_both_req) = JStr ''o1'' \<and>
   (\<exists>w. organization_handler ex_both_req ex_org_store =
           (merged_response (JStr ''o1''), ex_org_store((''organizations'', JStr ''o1'') \<mapsto> w)) \<and>
        field (JObj w) ''members'' =
          JArr [JObj [(''$id'', JStr ''mA''), (''name'', JStr ''Ann''),
                      (''email'', JStr ''ann@x.com''), (''role'', JStr ''owner'')],
                JObj [(''$id'', JStr ''mB''), (''name'', JStr ''Bob''),
                      (''email'', JStr ''bob@x.com''), (''role'', JStr ''member'')],
                JObj [(''$id'', JStr ''mem_1700''), (''name'', JStr ''Cy''),
                      (''email'', JStr ''cy@x.com''), (''role'', JUndef)]] \<and>
        field (JObj w) ''teams'' =
          JArr [JObj [(''$id'', JStr ''tT''), (''name'', JStr ''Core''), (''members'', JArr [JStr ''mA''])],
                JObj [(''$id'', JStr ''team_1701''), (''name'', JStr ''Cy''),
                      (''members'', JArr [JStr ''mA''])]])"
proof -
  have d: "document_of ex_both_req =
     JObj [(''email'', JStr ''cy@x.com''), (''name'', JStr ''Cy''),
           (''members'', JArr [JStr ''mA'']), (''organizationId'', JStr ''o1'')]"
    by (simp add: ex_both_req_def request_defs)
  have n: "now_member ex_both_req = 1700" "now_team ex_both_req = 1701"
    by (simp_all add: ex_both_req_def)
  have e: "is_delete_event (event_of ex_both_req) = Some False"
    by (simp add: ex_both_req_def request_defs)
  have m: "is_member_payload (document_of ex_both_req)"
    unfolding d by (simp add: is_member_payload_def)
  have t: "is_team_payload (document_of ex_both_req)"
    unfolding d by (simp add: is_team_payload_def)
  have i: "\<not> truthy (field (document_of ex_both_req) ''$id'')"
    unfolding d by simp
  have p: "parent_org_id (document_of ex_both_req) = JStr ''o1''"
    unfolding d by (simp add: parent_org_id_def js_or_def)
  have f: "fetch_org (JStr ''o1'') ex_org_store = ex_org"
    by (simp add: fetch_org_def es_get_def ex_org_store_def es_index_def ex_org_def)
  have ms: "js_or (field (JObj (fetch_org (parent_org_id (document_of ex_both_req)) ex_org_store)) ''members'') (JArr []) =
      JArr [JObj [(''$id'', JStr ''mA''), (''name'', JStr ''Ann''),
                      (''email'', JStr ''ann@x.com''), (''role'', JStr ''owner'')],
                JObj [(''$id'', JStr ''mB''), (''name'', JStr ''Bob''),
                      (''email'', JStr ''bob@x.com''), (''role'', JStr ''member'')]]"
    unfolding p f by (simp add: ex_org_def js_or_def)
  have ts: "js_or (field (JObj (fetch_org (parent_org_id (document_of ex_both_req)) ex_org_store)) ''teams'') (JArr []) =
      JArr [JObj [(''$id'', JStr ''tT''), (''name'', JStr ''Core''), (''members'', JArr [JStr ''mA''])]]"
    unfolding p f by (simp add: ex_org_def js_or_def)
  have u1: "upsert_entry (member_of 1700 (document_of ex_both_req))
       [JObj [(''$id'', JStr ''mA''), (''name'', JStr ''Ann''),
                      (''email'', JStr ''ann@x.com''), (''role'', JStr ''owner'')],
                JObj [(''$id'', JStr ''mB''), (''name'', JStr ''Bob''),
                      (''email'', JStr ''bob@x.com''), (''role'', JStr ''member'')]] =
          [JObj [(''$id'', JStr ''mA''), (''name'', JStr ''Ann''),
                      (''email'', JStr ''ann@x.com''), (''role'', JStr ''owner'')],
                JObj [(''$id'', JStr ''mB''), (''name'', JStr ''Bob''),
                      (''email'', JStr ''bob@x.com''), (''role'', JStr ''member'')],
                JObj [(''$id'', JStr ''mem_1700''), (''name'', JStr ''Cy''),
                      (''email'', JStr ''cy@x.com''), (''role'', JUndef)]]"
    unfolding d by (simp add: upsert_entry_def member_of_def same_id_def js_or_def digits.simps digit_char_def)
  have u2: "upsert_entry (team_of 1701 (document_of ex_both_req))
       [JObj [(''$id'', JStr ''tT''), (''name'', JStr ''Core''), (''members'', JArr [JStr ''mA''])]] =
          [JObj [(''$id'', JStr ''tT''), (''name'', JStr ''Core''), (''members'', JArr [JStr ''mA''])],
                JObj [(''$id'', JStr ''team_1701''), (''name'', JStr ''Cy''),
                      (''members'', JArr [JStr ''mA''])]]"
    unfolding d by (simp add: upsert_entry_def team_of_def same_id_def js_or_def digits.simps digit_char_def)
  from member_and_team_both_merged[OF m t i e _ _ ms ts]
  have "\<exists>w. organization_handler ex_both_req ex_org_store =
               (merged_response (parent_org_id (document_of ex_both_req)),
                ex_org_store((''organizations'', parent_org_id (document_of ex_both_req)) \<mapsto> w)) \<and>
             field (JObj w) ''members'' = JArr (upsert_entry (member_of (now_member ex_both_req) (document_of ex_both_req))
       [JObj [(''$id'', JStr ''mA''), (''name'', JStr ''Ann''),
                      (''email'', JStr ''ann@x.com''), (''role'', JStr ''owner'')],
                JObj [(''$id'', JStr ''mB''), (''name'', JStr ''Bob''),
                      (''email'', JStr ''bob@x.com''), (''role'', JStr ''member'')]]) \<and>
             field (JObj w) ''teams'' = JArr (upsert_entry (team_of (now_team ex_both_req) (document_of ex_both_req))
       [JObj [(''$id'', JStr ''tT''), (''name'', JStr ''Core''), (''members'', JArr [JStr ''mA''])]])"
    by (simp add: p)
  then have "\<exists>w. organization_handler ex_both_req ex_org_store =
           (merged_response (JStr ''o1''), ex_org_store((''organizations'', JStr ''o1'') \<mapsto> w)) \<and>
        field (JObj w) ''members'' =
          JArr [JObj [(''$id'', JStr ''mA''), (''name'', JStr ''Ann''),
                      (''email'', JStr ''ann@x.com''), (''role'', JStr ''owner'')],
                JObj [(''$id'', JStr ''mB''), (''name'', JStr ''Bob''),
                      (''email'', JStr ''bob@x.com''), (''role'', JStr ''member'')],
                JObj [(''$id'', JStr ''mem_1700''), (''name'', JStr ''Cy''),
                      (''email'', JStr ''cy@x.com''), (''role'', JUndef)]] \<and>
        field (JObj w) ''teams'' =
          JArr [JObj [(''$id'', JStr ''tT''), (''name'', JStr ''Core''), (''members'', JArr [JStr ''mA''])],
                JObj [(''$id'', JStr ''team_1701''), (''name'', JStr ''Cy''),
                      (''members'', JArr [JStr ''mA''])]]"
    unfolding n p u1 u2 .
  with m t i e p show ?thesis by blast
qed

text \<open>
  C4. Start from a store with no organization and run any sequence of requests to the
  organization endpoint (upserts, child merges, deletions). Every document \<open>d\<close> the
  store then returns from the organizations index carries \<^verbatim>\<open>docType\<close>
  \<^verbatim>\<open>organizations\<close> and has a \<^verbatim>\<open>members\<close> and a \<^verbatim>\<open>teams\<close> property (neither is ever
  missing from the document). Both hold arrays, provided every full organization payload
  of the sequence gave its \<^verbatim>\<open>members\<close> and \<^verbatim>\<open>teams\<close>, if at all, as arrays.
\<close>

theorem aggregate_invariant:
  assumes "es_get ''organizations'' i (run_org reqs empty_store) = Some d"
  shows "field (JObj d) ''docType'' = JStr ''organizations'' \<and>
         field (JObj d) ''members'' \<noteq> JUndef \<and> field (JObj d) ''teams'' \<noteq> JUndef \<and>
         (list_all collections_typed reqs \<longrightarrow>
            isArray (field (JObj d) ''members'') \<and> isArray (field (JObj d) ''teams''))"
proof -
  from assms obtain d0 where d0: "run_org reqs empty_store (''organizations'', i) = Some d0"
    and d: "d = json_form_props d0"
    by (auto simp: es_get_def)
  have e: "organizations_all P empty_store" for P
    by (simp add: organizations_all_def empty_store_def)
  from run_org_ok[OF e] d0 have "aggregate_ok d0"
    unfolding organizations_all_def by blast
  then have "aggregate_ok d"
    unfolding d by (rule aggregate_ok_json_form)
  moreover have "aggregate_arrays d" if "list_all collections_typed reqs"
  proof -
    from run_org_arrays[OF e that] d0 have "aggregate_arrays d0"
      unfolding organizations_all_def by blast
    then show ?thesis
      unfolding d by (rule aggregate_arrays_json_form)
  qed
  ultimately show ?thesis
    by (simp add: aggregate_ok_def aggregate_arrays_def del: field.simps)
qed

text \<open>The upsert of the example organization followed by the merge of member Bob into
  it.\<close>

theorem aggregate_invariant_witness:
  "list_all collections_typed [ex_org_req, ex_member_req] \<and>
   es_get ''organizations'' (JStr ''o1'') (run_org [ex_org_req, ex_member_req] empty_store) =
     Some [(''docType'', JStr ''organizations''), (''name'', JStr ''Acme''),
           (''members'', JArr [JObj [(''$id'', JStr ''mB''), (''email'', JStr ''bob@y.com'')]]),
           (''teams'', JArr [])] \<and>
   isArray (field (JObj [(''docType'', JStr ''organizations''), (''name'', JStr ''Acme''),
           (''members'', JArr [JObj [(''$id'', JStr ''mB''), (''email'', JStr ''bob@y.com'')]]),
           (''teams'', JArr [])]) ''members'')"
proof -
  have r: "es_get ''organizations'' (JStr ''o1'') (run_org [ex_org_req, ex_member_req] empty_store) =
     Some [(''docType'', JStr ''organizations''), (''name'', JStr ''Acme''),
           (''members'', JArr [JObj [(''$id'', JStr ''mB''), (''email'', JStr ''bob@y.com'')]]),
           (''teams'', JArr [])]"
    by (simp add: ex_org_req_def ex_member_req_def request_defs organization_defs)
  have t: "list_all collections_typed [ex_org_req, ex_member_req]"
    by (simp add: collections_typed_def is_full_organization_def ex_org_req_def ex_member_req_def
          request_defs)
  from aggregate_invariant[OF r] t
  have "isArray (field (JObj [(''docType'', JStr ''organizations''), (''name'', JStr ''Acme''),
           (''members'', JArr [JObj [(''$id'', JStr ''mB''), (''email'', JStr ''bob@y.com'')]]),
           (''teams'', JArr [])]) ''members'')"
    by blast
  with r t show ?thesis by blast
qed

text \<open>The claim as it is worded, for any sequence of upserts and merges, fails on the
  upsert of a full organization whose \<^verbatim>\<open>members\<close> is no array: given as the string
  \<^verbatim>\<open>abc\<close> it is stored as that string, and given as \<^verbatim>\<open>1e999\<close> it is stored as
  \<^verbatim>\<open>null\<close>. Neither aggregate has a collection of members.\<close>

theorem aggregate_invariant_counterexample:
  "es_get ''organizations'' (JStr ''o1'') (run_org [ex_untyped_org_req] empty_store) =
     Some [(''docType'', JStr ''organizations''), (''name'', JStr ''Acme''),
           (''members'', JStr ''abc''), (''teams'', JArr [])] \<and>
   \<not> isArray (field (JObj (the (es_get ''organizations'' (JStr ''o1'')
                                  (run_org [ex_untyped_org_req] empty_store)))) ''members'') \<and>
   es_get ''organizations'' (JStr ''o1'') (run_org [ex_infinite_org_req] empty_store) =
     Some [(''docType'', JStr ''organizations''), (''name'', JStr ''Acme''),
           (''members'', JNull), (''teams'', JArr [])] \<and>
   \<not> isArray (field (JObj (the (es_get ''organizations'' (JStr ''o1'')
                                  (run_org [ex_infinite_org_req] empty_store)))) ''members'') \<and>
   \<not> truthy (field (JObj (the (es_get ''organizations'' (JStr ''o1'')
                                 (run_org [ex_infinite_org_req] empty_store)))) ''members'')"
  by (simp add: ex_untyped_org_req_def ex_infinite_org_req_def request_defs organization_defs)


text \<open>
  C5. A request to the organization endpoint whose payload is no full aggregate (its
  \<^verbatim>\<open>name\<close>, \<^verbatim>\<open>members\<close> and \<^verbatim>\<open>teams\<close> are all falsy) and names no parent
  (\<^verbatim>\<open>organizationId\<close>, \<^verbatim>\<open>orgId\<close>, \<^verbatim>\<open>org.$id\<close> and \<^verbatim>\<open>parentOrgId\<close> are all falsy) is
  answered 400 \<^verbatim>\<open>missing_parent_org_id\<close> and leaves the store as it was, unless it is a
  delete event for a payload with a \<^verbatim>\<open>$id\<close> (or its event has no string form).
\<close>

theorem missing_parent_rejected:
  assumes "truthy (document_of req)"
    and "\<not> truthy (field (document_of req) ''name'')"
    and "\<not> truthy (field (document_of req) ''members'')"
    and "\<not> truthy (field (document_of req) ''teams'')"
    and "\<not> truthy (parent_org_id (document_of req))"
    and "is_delete_event (event_of req) = Some del"
    and "\<not> (del \<and> truthy (field (document_of req) ''$id''))"
  shows "organization_handler req st = (missing_parent_response, st)"
proof -
  from assms(5) have "truthy (org_id_of (document_of req)) = truthy (field (document_of req) ''$id'')"
    by (simp add: parent_org_id_def org_id_of_def)
  moreover from assms(2-4) have "\<not> is_full_organization (document_of req)"
    by (simp add: is_full_organization_def)
  ultimately show ?thesis
    using assms(1,5,6,7)
    by (simp add: organization_handler_def missing_parent_response_def Let_def)
qed

theorem missing_parent_rejected_witness:
  "truthy (document_of ex_orphan_req) \<and>
   is_delete_event (event_of ex_orphan_req) = Some False \<and>
   organization_handler ex_orphan_req ex_org_store = (missing_parent_response, ex_org_store)"
proof -
  have d: "document_of ex_orphan_req = JObj [(''$id'', JStr ''m9''), (''email'', JStr ''a@x.com'')]"
    by (simp add: ex_orphan_req_def request_defs)
  have e: "is_delete_event (event_of ex_orphan_req) = Some False"
    by (simp add: ex_orphan_req_def request_defs)
  from missing_parent_rejected[of ex_orphan_req False ex_org_store] d e show ?thesis
    by (simp add: parent_org_id_def)
qed

text \<open>The claim as it is worded fails on a delete event whose payload is the identifier of
  an organization alone: the payload is no full aggregate and names no parent, and the
  request is answered 200 \<^verbatim>\<open>deleted\<close> and removes the organization from the store.\<close>

theorem missing_parent_counterexample:
  "truthy (document_of ex_bare_delete_req) \<and>
   \<not> truthy (field (document_of ex_bare_delete_req) ''name'') \<and>
   \<not> truthy (field (document_of ex_bare_delete_req) ''members'') \<and>
   \<not> truthy (field (document_of ex_bare_delete_req) ''teams'') \<and>
   \<not> truthy (parent_org_id (document_of ex_bare_delete_req)) \<and>
   fst (organization_handler ex_bare_delete_req ex_org_store) = deleted_response (JStr ''o1'') \<and>
   fst (organization_handler ex_bare_delete_req ex_org_store) \<noteq> missing_parent_response \<and>
   ex_org_store (''organizations'', JStr ''o1'') = Some ex_org \<and>
   snd (organization_handler ex_bare_delete_req ex_org_store) (''organizations'', JStr ''o1'') = None"
  by (simp add: ex_bare_delete_req_def ex_org_store_def request_defs organization_defs)

text \<open>
  C9. A delete event whose payload has no identifier (\<^verbatim>\<open>$id\<close>, \<^verbatim>\<open>organizationId\<close> and
  \<^verbatim>\<open>orgId\<close> are all falsy) is not answered as a deletion. It goes on to the merge logic.
  With no parent named in \<^verbatim>\<open>org.$id\<close> or \<^verbatim>\<open>parentOrgId\<close> either, the answer is 400
  \<^verbatim>\<open>missing_parent_org_id\<close> and the store is as it was. With one, the child merge into
  that parent is run: when it throws (the fetched aggregate holds a truthy value that is
  no array under a collection the payload is merged into) the answer is 500
  \<^verbatim>\<open>index_failed\<close> and the store is as it was, and otherwise the answer is
  \<^verbatim>\<open>merged_into_organization\<close> and the merged aggregate is written under the parent.
  The answer is \<^verbatim>\<open>deleted\<close> exactly when the event contains \<^verbatim>\<open>delete\<close> and the
  payload has an identifier.
\<close>

theorem delete_without_id_falls_through:
  "(truthy (document_of req) \<and> is_delete_event (event_of req) = Some True \<and>
    \<not> truthy (org_id_of (document_of req)) \<longrightarrow>
      (if \<not> truthy (parent_org_id (document_of req))
       then organization_handler req st = (missing_parent_response, st)
       else if merge_throws (document_of req) (fetch_org (parent_org_id (document_of req)) st)
       then organization_handler req st = (index_failed, st)
       else \<exists>orgDoc.
              merge_child (now_member req) (now_team req) (document_of req)
                (fetch_org (parent_org_id (document_of req)) st) = Some orgDoc \<and>
              organization_handler req st =
                (merged_response (parent_org_id (document_of req)),
                 st((''organizations'', parent_org_id (document_of req)) \<mapsto> orgDoc)))) \<and>
   ((\<exists>i. fst (organization_handler req st) = deleted_response i) \<longleftrightarrow>
      (truthy (document_of req) \<and> is_delete_event (event_of req) = Some True \<and>
       truthy (org_id_of (document_of req))))"
proof -
  let ?d = "document_of req"
  let ?p = "parent_org_id ?d"
  have full: "\<not> truthy (org_id_of ?d) \<Longrightarrow> \<not> is_full_organization ?d"
    by (simp add: org_id_of_def is_full_organization_def)
  have a: "(if \<not> truthy ?p
       then organization_handler req st = (missing_parent_response, st)
       else if merge_throws ?d (fetch_org ?p st)
       then organization_handler req st = (index_failed, st)
       else \<exists>orgDoc.
              merge_child (now_member req) (now_team req) ?d (fetch_org ?p st) = Some orgDoc \<and>
              organization_handler req st =
                (merged_response ?p, st((''organizations'', ?p) \<mapsto> orgDoc)))"
    if h: "truthy ?d" "is_delete_event (event_of req) = Some True" "\<not> truthy (org_id_of ?d)"
  proof (cases "truthy ?p")
    case False
    with h full show ?thesis
      by (simp add: organization_handler_def missing_parent_response_def Let_def)
  next
    case True
    show ?thesis
    proof (cases "merge_child (now_member req) (now_team req) ?d (fetch_org ?p st)")
      case None
      then have "merge_throws ?d (fetch_org ?p st)"
        by (simp add: merge_child_None)
      with None True h full show ?thesis
        by (simp add: organization_handler_def Let_def)
    next
      case (Some w)
      then have "\<not> merge_throws ?d (fetch_org ?p st)"
        using merge_child_None[of "now_member req" "now_team req" ?d "fetch_org ?p st"] by simp
      with Some True h full show ?thesis
        by (simp add: organization_handler_def merged_response_def es_index_def Let_def)
    qed
  qed
  have b: "(\<exists>i. fst (organization_handler req st) = deleted_response i) \<longleftrightarrow>
      (truthy ?d \<and> is_delete_event (event_of req) = Some True \<and> truthy (org_id_of ?d))"
    by (auto simp: organization_handler_def deleted_response_def index_failed_def Let_def
             split: option.splits)
  from a b show ?thesis by blast
qed

text \<open>A delete event with only an e-mail is answered 400. The one that names its parent
  \<^verbatim>\<open>o1\<close> is answered 500 on the store where \<^verbatim>\<open>o1\<close> has the string \<^verbatim>\<open>abc\<close> for
  members, and nothing is written.\<close>

theorem delete_without_id_falls_through_witness:
  "truthy (document_of ex_delete_noid_req) \<and>
   is_delete_event (event_of ex_delete_noid_req) = Some True \<and>
   \<not> truthy (org_id_of (document_of ex_delete_noid_req)) \<and>
   \<not> truthy (parent_org_id (document_of ex_delete_noid_req)) \<and>
   organization_handler ex_delete_noid_req ex_org_store = (missing_parent_response, ex_org_store) \<and>
   truthy (document_of ex_delete_parent_req) \<and>
   is_delete_event (event_of ex_delete_parent_req) = Some True \<and>
   \<not> truthy (org_id_of (document_of ex_delete_parent_req)) \<and>
   parent_org_id (document_of ex_delete_parent_req) = JStr ''o1'' \<and>
   merge_throws (document_of ex_delete_parent_req) (fetch_org (JStr ''o1'') ex_untyped_store) \<and>
   organization_handler ex_delete_parent_req ex_untyped_store = (index_failed, ex_untyped_store)"
proof -
  have d: "document_of ex_delete_noid_req = JObj [(''email'', JStr ''a@x.com'')]"
    by (simp add: ex_delete_noid_req_def request_defs)
  have e: "is_delete_event (event_of ex_delete_noid_req) = Some True"
    by (simp add: ex_delete_noid_req_def request_defs)
  have i: "\<not> truthy (org_id_of (document_of ex_delete_noid_req))"
    unfolding d by (simp add: org_id_of_def)
  have p: "\<not> truthy (parent_org_id (document_of ex_delete_noid_req))"
    unfolding d by (simp add: parent_org_id_def)
  have t: "truthy (document_of ex_delete_noid_req)"
    unfolding d by simp
  from delete_without_id_falls_through[of ex_delete_noid_req ex_org_store] t e i p
  have r1: "organization_handler ex_delete_noid_req ex_org_store = (missing_parent_response, ex_org_store)"
    by presburger
  have d': "document_of ex_delete_parent_req =
      JObj [(''email'', JStr ''a@x.com''), (''parentOrgId'', JStr ''o1'')]"
    by (simp add: ex_delete_parent_req_def request_defs)
  have e': "is_delete_event (event_of ex_delete_parent_req) = Some True"
    by (simp add: ex_delete_parent_req_def request_defs)
  have i': "\<not> truthy (org_id_of (document_of ex_delete_parent_req))"
    unfolding d' by (simp add: org_id_of_def)
  have p': "parent_org_id (document_of ex_delete_parent_req) = JStr ''o1''"
    unfolding d' by (simp add: parent_org_id_def js_or_def js_and_def)
  have t': "truthy (document_of ex_delete_parent_req)"
    unfolding d' by simp
  have f: "fetch_org (JStr ''o1'') ex_untyped_store =
      [(''docType'', JStr ''organizations''), (''name'', JStr ''Acme''),
       (''members'', JStr ''abc''), (''teams'', JArr [])]"
    by (simp add: ex_untyped_store_def ex_untyped_org_req_def request_defs organization_defs)
  have m: "merge_throws (document_of ex_delete_parent_req) (fetch_org (JStr ''o1'') ex_untyped_store)"
    unfolding f d' by (simp add: merge_throws_def is_member_payload_def js_or_def)
  from delete_without_id_falls_through[of ex_delete_parent_req ex_untyped_store] t' e' i' p' m
  have r2: "organization_handler ex_delete_parent_req ex_untyped_store = (index_failed, ex_untyped_store)"
    by simp
  from t e i p r1 t' e' i' p' m r2 show ?thesis by blast
qed

text \<open>The claim as it is worded fails on a delete event whose payload has no identifier
  and names its parent in \<^verbatim>\<open>parentOrgId\<close>: the answer is not 400 but
  \<^verbatim>\<open>merged_into_organization\<close>, and the member is written into the parent.\<close>

theorem delete_without_id_counterexample:
  "is_delete_event (event_of ex_delete_parent_req) = Some True \<and>
   \<not> truthy (org_id_of (document_of ex_delete_parent_req)) \<and>
   fst (organization_handler ex_delete_parent_req empty_store) = merged_response (JStr ''o1'') \<and>
   fst (organization_handler ex_delete_parent_req empty_store) \<noteq> missing_parent_response \<and>
   empty_store (''organizations'', JStr ''o1'') = None \<and>
   snd (organization_handler ex_delete_parent_req empty_store) (''organizations'', JStr ''o1'') =
     Some [(''docType'', JStr ''organizations''),
           (''members'', JArr [JObj [(''$id'', JStr ''mem_1700''), (''name'', JUndef),
                                     (''email'', JStr ''a@x.com''), (''role'', JUndef)]]),
           (''teams'', JArr []), (''name'', JStr []), (''slug'', JStr []), (''description'', JStr [])]"
  by (simp add: ex_delete_parent_req_def request_defs organization_defs digits.simps digit_char_def)


section \<open>Properties of the search endpoint\<close>

lemmas search_defs =
  search_handler_def run_search_def current_summary_def load_calls_def loadMappingSummary_def
  mapping_summary_def hasKeywordSubfield_def INDICES_def fieldsToCheck_def esQuery_def
  unfilteredQuery_def userFilters_def termOrMatch_def hasKeyword_def text_clause_def hits_of_def
  items_of_def item_of_def debug_requested_def search_failed_def size_throws_def

text \<open>Past its guards the handler makes its calls in a fixed order: the lazy load of the
  mapping summary, the filtered query, and in debug mode the unfiltered one.\<close>

lemma search_handler_proceeds:
  assumes "truthy (field (body req) ''userEmail'')"
    and "truthy (field (body req) ''query'')"
    and "js_String (field (body req) ''query'') = Some q"
    and "2 \<le> length (trim q)"
    and "\<not> size_throws (field (body req) ''limit'')"
  shows "search_handler es cache req =
           (fst (run_search es (current_summary es cache) req q (field (body req) ''userEmail'')),
            current_summary es cache,
            load_calls cache @ snd (run_search es (current_summary es cache) req q (field (body req) ''userEmail'')))"
  using assms by (simp add: search_handler_def Let_def)

lemma run_search_calls:
  "snd (run_search es m req q u) = [Search (esQuery (JObj m) q u)]
   \<or> (debug_requested req \<and> snd (run_search es m req q u) = [Search (esQuery (JObj m) q u), Search (unfilteredQuery q)])"
  by (simp add: run_search_def Let_def split: option.splits)

lemma search_handler_calls:
  assumes "truthy (field (body req) ''userEmail'')"
    and "truthy (field (body req) ''query'')"
    and "js_String (field (body req) ''query'') = Some q"
    and "2 \<le> length (trim q)"
    and "\<not> size_throws (field (body req) ''limit'')"
  shows "\<exists>resp rest. search_handler es cache req =
           (resp, current_summary es cache,
            load_calls cache @ Search (esQuery (JObj (current_summary es cache)) q (field (body req) ''userEmail'')) # rest) \<and>
           (rest = [] \<or> debug_requested req \<and> rest = [Search (unfilteredQuery q)])"
  using run_search_calls[of es "current_summary es cache" req q "field (body req) ''userEmail''"]
  unfolding search_handler_proceeds[OF assms] by auto

text \<open>The entry of a freshly loaded summary is what \<^verbatim>\<open>hasKeywordSubfield\<close> found
  in the mapping of the index.\<close>

lemma hasKeyword_mapping_summary:
  "hasKeyword (JObj (mapping_summary raw)) ''tasks'' ''userEmail'' =
     hasKeywordSubfield (js_or (js_or (field raw ''tasks'') (field raw ''tasks'')) raw) ''userEmail''"
  by (simp add: hasKeyword_def mapping_summary_def INDICES_def fieldsToCheck_def js_and_def)

lemma matches_termOrMatch: "matches leaf (termOrMatch m u f idx fb) d = leaf (termOrMatch m u f idx fb) d"
  by (simp add: termOrMatch_def)

lemma matches_esQuery:
  "matches leaf (es_query (esQuery m q u)) d \<longleftrightarrow>
     leaf (text_clause q) d \<and>
     (leaf (TermQ ''_index'' (JStr ''tasks'')) d \<and> leaf (termOrMatch m u ''userEmail'' ''tasks'' ''userEmail'') d
      \<or> leaf (TermQ ''_index'' (JStr ''organizations'')) d \<and>
        leaf (termOrMatch m u ''members.email'' ''organizations'' ''members.email'') d)"
  by (auto simp: esQuery_def userFilters_def text_clause_def matches_termOrMatch)

text \<open>
  C1. A search request with a truthy \<^verbatim>\<open>userEmail\<close> \<open>u\<close> and a query whose string form
  \<open>q\<close> has at least two characters after trimming (and a \<^verbatim>\<open>limit\<close> that converts to
  a number without throwing) sends the store, as the query whose hits become the results, a \<^verbatim>\<open>bool\<close> query over the tasks and organizations indices:
  its \<^verbatim>\<open>must\<close> is the \<^verbatim>\<open>bool_prefix\<close> multi-match of \<open>q\<close> over the searched fields,
  its \<^verbatim>\<open>filter\<close> a \<^verbatim>\<open>should\<close> of exactly two branches of which one must match. The
  first branch requires the index \<^verbatim>\<open>tasks\<close> and the clause \<open>c1\<close> on \<^verbatim>\<open>userEmail\<close> with
  value \<open>u\<close>, the second the index \<^verbatim>\<open>organizations\<close> and the clause \<open>c2\<close> on
  \<^verbatim>\<open>members.email\<close> with value \<open>u\<close>; each clause is a term on the keyword sub-field or
  a match on the field. Whatever the leaf clauses mean, a document matches the query
  exactly when it matches the text clause and one of the two branches. (Only a debug
  request makes one more call, the unfiltered query reported under \<^verbatim>\<open>debug\<close>.)
\<close>

theorem search_query_visibility:
  assumes "truthy (field (body req) ''userEmail'')"
    and "truthy (field (body req) ''query'')"
    and "js_String (field (body req) ''query'') = Some q"
    and "2 \<le> length (trim q)"
    and "\<not> size_throws (field (body req) ''limit'')"
    and "u = field (body req) ''userEmail''"
    and "c1 = termOrMatch (JObj (current_summary es cache)) u ''userEmail'' ''tasks'' ''userEmail''"
    and "c2 = termOrMatch (JObj (current_summary es cache)) u ''members.email'' ''organizations'' ''members.email''"
    and "sent = \<lparr>es_indices = [''tasks'', ''organizations''],
                 es_query =
                   BoolQ [MultiMatchQ q ''bool_prefix'' fieldsToSearch ''or'']
                         [BoolQ [] []
                            [BoolQ [TermQ ''_index'' (JStr ''tasks''), c1] [] [] None,
                             BoolQ [TermQ ''_index'' (JStr ''organizations''), c2] [] [] None]
                            (Some 1)]
                         [] None\<rparr>"
  shows "(\<exists>resp rest. search_handler es cache req =
            (resp, current_summary es cache, load_calls cache @ Search sent # rest) \<and>
            (rest = [] \<or> debug_requested req \<and> rest = [Search (unfilteredQuery q)])) \<and>
         (c1 = TermQ ''userEmail.keyword'' u \<or> c1 = MatchQ ''userEmail'' u) \<and>
         (c2 = TermQ ''members.email.keyword'' u \<or> c2 = MatchQ ''members.email'' u) \<and>
         (\<forall>leaf d. matches leaf (es_query sent) (d :: 'd) \<longleftrightarrow>
            leaf (MultiMatchQ q ''bool_prefix'' fieldsToSearch ''or'') d \<and>
            (leaf (TermQ ''_index'' (JStr ''tasks'')) d \<and> leaf c1 d
             \<or> leaf (TermQ ''_index'' (JStr ''organizations'')) d \<and> leaf c2 d))"
proof -
  have s: "sent = esQuery (JObj (current_summary es cache)) q u"
    unfolding assms(7,8,9) by (simp add: esQuery_def userFilters_def text_clause_def INDICES_def)
  have a: "\<exists>resp rest. search_handler es cache req =
            (resp, current_summary es cache, load_calls cache @ Search sent # rest) \<and>
            (rest = [] \<or> debug_requested req \<and> rest = [Search (unfilteredQuery q)])"
    unfolding s assms(6) by (rule search_handler_calls[OF assms(1-5)])
  have b: "c1 = TermQ ''userEmail.keyword'' u \<or> c1 = MatchQ ''userEmail'' u"
    unfolding assms(7) by (simp add: termOrMatch_def)
  have c: "c2 = TermQ ''members.email.keyword'' u \<or> c2 = MatchQ ''members.email'' u"
    unfolding assms(8) by (simp add: termOrMatch_def)
  have d: "\<forall>leaf d. matches leaf (es_query sent) (d :: 'd) \<longleftrightarrow>
            leaf (MultiMatchQ q ''bool_prefix'' fieldsToSearch ''or'') d \<and>
            (leaf (TermQ ''_index'' (JStr ''tasks'')) d \<and> leaf c1 d
             \<or> leaf (TermQ ''_index'' (JStr ''organizations'')) d \<and> leaf c2 d)"
    unfolding s matches_esQuery assms(7,8) by (simp add: text_clause_def)
  from a b c d show ?thesis by blast
qed

text \<open>The example request, on an empty cache: the summary is loaded first; the mapping
  has a keyword sub-field for the owner of a task and none for the e-mail of a member,
  so the first branch holds a term clause and the second a match clause.\<close>

theorem search_query_visibility_witness:
  "truthy (field (body ex_search_req) ''userEmail'') \<and>
   truthy (field (body ex_search_req) ''query'') \<and>
   js_String (field (body ex_search_req) ''query'') = Some ''desi'' \<and>
   2 \<le> length (trim ''desi'') \<and>
   \<not> size_throws (field (body ex_search_req) ''limit'') \<and>
   (\<exists>resp rest. search_handler ex_client [] ex_search_req =
      (resp, current_summary ex_client [],
       GetMapping [''tasks'', ''organizations''] #
       Search \<lparr>es_indices = [''tasks'', ''organizations''],
               es_query =
                 BoolQ [MultiMatchQ ''desi'' ''bool_prefix'' fieldsToSearch ''or'']
                       [BoolQ [] []
                          [BoolQ [TermQ ''_index'' (JStr ''tasks''),
                                  TermQ ''userEmail.keyword'' (JStr ''a@x.com'')] [] [] None,
                           BoolQ [TermQ ''_index'' (JStr ''organizations''),
                                  MatchQ ''members.email'' (JStr ''a@x.com'')] [] [] None]
                          (Some 1)]
                       [] None\<rparr> # rest))"
proof -
  have u: "field (body ex_search_req) ''userEmail'' = JStr ''a@x.com''"
    by (simp add: ex_search_req_def)
  have g1: "truthy (field (body ex_search_req) ''userEmail'')"
    by (simp add: ex_search_req_def)
  have g2: "truthy (field (body ex_search_req) ''query'')"
    by (simp add: ex_search_req_def)
  have g3: "js_String (field (body ex_search_req) ''query'') = Some ''desi''"
    by (simp add: ex_search_req_def)
  have g4: "2 \<le> length (trim ''desi'')"
    by (simp add: trim_def js_space_def)
  have g5: "\<not> size_throws (field (body ex_search_req) ''limit'')"
    by (simp add: ex_search_req_def size_throws_def)
  have c1: "termOrMatch (JObj (current_summary ex_client [])) (JStr ''a@x.com'') ''userEmail'' ''tasks'' ''userEmail'' =
      TermQ ''userEmail.keyword'' (JStr ''a@x.com'')"
    by (simp add: search_defs ex_client_def ex_mapping_def js_or_def js_and_def)
  have c2: "termOrMatch (JObj (current_summary ex_client [])) (JStr ''a@x.com'') ''members.email'' ''organizations'' ''members.email'' =
      MatchQ ''members.email'' (JStr ''a@x.com'')"
    by (simp add: search_defs ex_client_def ex_mapping_def js_or_def js_and_def)
  have l: "load_calls [] = [GetMapping [''tasks'', ''organizations'']]"
    by (simp add: load_calls_def INDICES_def)
  from search_query_visibility[OF g1 g2 g3 g4 g5 refl refl refl refl, of ex_client "[]"]
  have "\<exists>resp rest. search_handler ex_client [] ex_search_req =
      (resp, current_summary ex_client [],
       GetMapping [''tasks'', ''organizations''] #
       Search \<lparr>es_indices = [''tasks'', ''organizations''],
               es_query =
                 BoolQ [MultiMatchQ ''desi'' ''bool_prefix'' fieldsToSearch ''or'']
                       [BoolQ [] []
                          [BoolQ [TermQ ''_index'' (JStr ''tasks''),
                                  TermQ ''userEmail.keyword'' (JStr ''a@x.com'')] [] [] None,
                           BoolQ [TermQ ''_index'' (JStr ''organizations''),
                                  MatchQ ''members.email'' (JStr ''a@x.com'')] [] [] None]
                          (Some 1)]
                       [] None\<rparr> # rest)"
    unfolding u c1 c2 l by auto
  with g1 g2 g3 g4 g5 show ?thesis by blast
qed

text \<open>
  C6. In the query such a request sends, the clause of the tasks branch on the owner's
  e-mail follows the mapping summary in force (the cache, loaded first when it is
  empty): when the summary has a truthy entry for \<^verbatim>\<open>userEmail\<close> under \<^verbatim>\<open>tasks\<close>, the
  clause is a term on \<^verbatim>\<open>userEmail.keyword\<close>; when it has none, or a false one, the
  clause is a match on \<^verbatim>\<open>userEmail\<close>.
\<close>

theorem tasks_clause_follows_summary:
  assumes "truthy (field (body req) ''userEmail'')"
    and "truthy (field (body req) ''query'')"
    and "js_String (field (body req) ''query'') = Some q"
    and "2 \<le> length (trim q)"
    and "\<not> size_throws (field (body req) ''limit'')"
  shows "\<exists>resp rest branch. search_handler es cache req =
           (resp, current_summary es cache,
            load_calls cache @
            Search \<lparr>es_indices = INDICES,
                    es_query =
                      BoolQ [text_clause q]
                            [BoolQ [] []
                               [BoolQ [TermQ ''_index'' (JStr ''tasks''),
                                       (if hasKeyword (JObj (current_summary es cache)) ''tasks'' ''userEmail''
                                        then TermQ ''userEmail.keyword'' (field (body req) ''userEmail'')
                                        else MatchQ ''userEmail'' (field (body req) ''userEmail''))] [] [] None,
                                branch]
                               (Some 1)]
                            [] None\<rparr> # rest)"
proof -
  from search_handler_calls[OF assms, of es cache] obtain resp rest where
    "search_handler es cache req =
           (resp, current_summary es cache,
            load_calls cache @ Search (esQuery (JObj (current_summary es cache)) q (field (body req) ''userEmail'')) # rest)"
    by blast
  then show ?thesis
    by (simp add: esQuery_def userFilters_def termOrMatch_def)
qed

text \<open>The example request on a loaded cache that reports no keyword sub-field: the clause
  is a match.\<close>

theorem tasks_clause_follows_summary_witness:
  "truthy (field (body ex_search_req) ''userEmail'') \<and>
   truthy (field (body ex_search_req) ''query'') \<and>
   js_String (field (body ex_search_req) ''query'') = Some ''desi'' \<and>
   2 \<le> length (trim ''desi'') \<and>
   \<not> size_throws (field (body ex_search_req) ''limit'') \<and>
   \<not> hasKeyword (JObj [(''tasks'', JObj [(''userEmail'', JBool False)])]) ''tasks'' ''userEmail'' \<and>
   (\<exists>resp rest branch. search_handler ex_client [(''tasks'', JObj [(''userEmail'', JBool False)])] ex_search_req =
      (resp, [(''tasks'', JObj [(''userEmail'', JBool False)])],
       [Search \<lparr>es_indices = INDICES,
                es_query =
                  BoolQ [text_clause ''desi'']
                        [BoolQ [] []
                           [BoolQ [TermQ ''_index'' (JStr ''tasks''),
                                   MatchQ ''userEmail'' (JStr ''a@x.com'')] [] [] None,
                            branch]
                           (Some 1)]
                        [] None\<rparr>] @ rest))"
proof -
  have u: "field (body ex_search_req) ''userEmail'' = JStr ''a@x.com''"
    by (simp add: ex_search_req_def)
  have g1: "truthy (field (body ex_search_req) ''userEmail'')"
    by (simp add: ex_search_req_def)
  have g2: "truthy (field (body ex_search_req) ''query'')"
    by (simp add: ex_search_req_def)
  have g3: "js_String (field (body ex_search_req) ''query'') = Some ''desi''"
    by (simp add: ex_search_req_def)
  have g4: "2 \<le> length (trim ''desi'')"
    by (simp add: trim_def js_space_def)
  have g5: "\<not> size_throws (field (body ex_search_req) ''limit'')"
    by (simp add: ex_search_req_def size_throws_def)
  have m: "current_summary ex_client [(''tasks'', JObj [(''userEmail'', JBool False)])] =
      [(''tasks'', JObj [(''userEmail'', JBool False)])]"
    by (simp add: current_summary_def)
  have l: "load_calls [(''tasks'', JObj [(''userEmail'', JBool False)])] = []"
    by (simp add: load_calls_def)
  have h: "\<not> hasKeyword (JObj [(''tasks'', JObj [(''userEmail'', JBool False)])]) ''tasks'' ''userEmail''"
    by (simp add: hasKeyword_def js_and_def)
  from tasks_clause_follows_summary[OF g1 g2 g3 g4 g5, of ex_client "[(''tasks'', JObj [(''userEmail'', JBool False)])]"]
  have "\<exists>resp rest branch. search_handler ex_client [(''tasks'', JObj [(''userEmail'', JBool False)])] ex_search_req =
      (resp, [(''tasks'', JObj [(''userEmail'', JBool False)])],
       [Search \<lparr>es_indices = INDICES,
                es_query =
                  BoolQ [text_clause ''desi'']
                        [BoolQ [] []
                           [BoolQ [TermQ ''_index'' (JStr ''tasks''),
                                   MatchQ ''userEmail'' (JStr ''a@x.com'')] [] [] None,
                            branch]
                           (Some 1)]
                        [] None\<rparr>] @ rest)"
    unfolding m l u using h by simp
  with g1 g2 g3 g4 g5 h show ?thesis by blast
qed

text \<open>
  C7. A search request with a truthy \<^verbatim>\<open>userEmail\<close> whose query is absent (or otherwise
  falsy), or has a string form of fewer than two characters after trimming, is answered
  200 with \<^verbatim>\<open>{results: []}\<close>; the handler makes no call to the store and leaves the
  cache as it is.
\<close>

theorem short_query_short_circuit:
  assumes "truthy (field (body req) ''userEmail'')"
    and "\<not> truthy (field (body req) ''query'') \<or>
         (\<exists>q. js_String (field (body req) ''query'') = Some q \<and> length (trim q) < 2)"
  shows "search_handler es cache req = (Response 200 (JObj [(''results'', JArr [])]), cache, [])"
  using assms by (auto simp: search_handler_def Let_def)

theorem short_query_short_circuit_witness:
  "truthy (field (body ex_short_search_req) ''userEmail'') \<and>
   js_String (field (body ex_short_search_req) ''query'') = Some '' d '' \<and>
   trim '' d '' = ''d'' \<and>
   search_handler ex_client [] ex_short_search_req = (Response 200 (JObj [(''results'', JArr [])]), [], [])"
proof -
  have g1: "truthy (field (body ex_short_search_req) ''userEmail'')"
    by (simp add: ex_short_search_req_def)
  have g2: "js_String (field (body ex_short_search_req) ''query'') = Some '' d ''"
    by (simp add: ex_short_search_req_def)
  have g3: "trim '' d '' = ''d''"
    by (simp add: trim_def js_space_def)
  from g2 g3 have "\<not> truthy (field (body ex_short_search_req) ''query'') \<or>
         (\<exists>q. js_String (field (body ex_short_search_req) ''query'') = Some q \<and> length (trim q) < 2)"
    by simp
  from short_query_short_circuit[OF g1 this, of ex_client "[]"] g1 g2 g3 show ?thesis
    by blast
qed

section \<open>Properties of the classifier\<close>

text \<open>
  C3. When no type hint resolves (the hint is no string, or a string that names none of
  the four kinds), the classifier returns what the ordered rule list returns: the kind
  of the first of the member, organization, team and task tests that holds, and the task
  kind when none does. So a payload with a truthy \<^verbatim>\<open>email\<close> and a truthy \<^verbatim>\<open>title\<close>,
  which passes the task test too, is classified as a member of an organization.
\<close>

theorem classifier_priority:
  assumes "hint_type (explicit_hint req) = None"
  shows "detectDocType req doc = first_match heuristic_rules ''tasks'' doc \<and>
         (truthy (field doc ''email'') \<and> truthy (field doc ''title'') \<longrightarrow>
            looks_task doc \<and> detectDocType req doc = ''orgmembers'' \<and> detectDocType req doc \<noteq> ''tasks'')"
  using assms by (simp add: detectDocType_def heuristic_rules_def looks_orgmember_def looks_task_def)

theorem classifier_priority_witness:
  "hint_type (explicit_hint ex_classify_req) = None \<and>
   truthy (field (document_of ex_classify_req) ''email'') \<and>
   truthy (field (document_of ex_classify_req) ''title'') \<and>
   detectDocType ex_classify_req (document_of ex_classify_req) = ''orgmembers''"
proof -
  have d: "document_of ex_classify_req =
      JObj [(''$id'', JStr ''d1''), (''email'', JStr ''a@x.com''), (''title'', JStr ''Design review'')]"
    by (simp add: ex_classify_req_def request_defs)
  have h: "hint_type (explicit_hint ex_classify_req) = None"
    by (simp add: ex_classify_req_def explicit_hint_def hint_type_def request_defs)
  have e: "truthy (field (document_of ex_classify_req) ''email'')"
    unfolding d by simp
  have t: "truthy (field (document_of ex_classify_req) ''title'')"
    unfolding d by simp
  from classifier_priority[OF h, of "document_of ex_classify_req"] e t h show ?thesis
    by blast
qed

end
